theory Spec2Isabelle
  imports Complex_Main
begin

section \<open>Values of the JavaScript program\<close>

text \<open>
  The program (\<^verbatim>\<open>src/index.js\<close>) handles values that come out of \<^verbatim>\<open>JSON.parse\<close>:
  the body of the catalog response and the body of the chat request. A parsed JSON value
  is \<^verbatim>\<open>null\<close>, a boolean, a number, a string, an array or a plain object. The own
  properties of an object are kept as an association list in which a key occurs once, as
  \<^verbatim>\<open>JSON.parse\<close> leaves them. A number is kept as the exact rational value of the
  (finite) double. A string is a list of code units; the model carries the code units
  below 256.

  Reading a property may give \<^verbatim>\<open>undefined\<close>, which is not a JSON value: a JavaScript
  value \<open>jsval\<close> is \<open>None\<close> for \<^verbatim>\<open>undefined\<close> and \<open>Some v\<close> for a JSON value.
\<close>

datatype json =
    JNull
  | JBool bool
  | JNum rat
  | JStr string
  | JArr "json list"
  | JObj "(string \<times> json) list"

type_synonym jsval = "json option"

text \<open>
  What the program throws, and what a rejected promise carries. Each error has the
  \<^verbatim>\<open>message\<close> that the chat endpoint reports.
\<close>

datatype error =
    Error string
  | TypeError string
  | RangeError string
  | SyntaxError string
  | FetchError string

fun message :: "error \<Rightarrow> string" where
  "message (Error m) = m"
| "message (TypeError m) = m"
| "message (RangeError m) = m"
| "message (SyntaxError m) = m"
| "message (FetchError m) = m"

text \<open>\<^verbatim>\<open>ToBoolean\<close>: the operand test of \<^verbatim>\<open>||\<close> and \<^verbatim>\<open>!\<close>.\<close>

fun truthy :: "jsval \<Rightarrow> bool" where
  "truthy None = False"
| "truthy (Some JNull) = False"
| "truthy (Some (JBool b)) = b"
| "truthy (Some (JNum r)) = (r \<noteq> 0)"
| "truthy (Some (JStr s)) = (s \<noteq> [])"
| "truthy (Some (JArr xs)) = True"
| "truthy (Some (JObj kvs)) = True"

text \<open>\<^verbatim>\<open>a || b\<close>: the left operand when it is truthy, the right operand otherwise.\<close>

definition or_else :: "jsval \<Rightarrow> jsval \<Rightarrow> jsval" where
  "or_else a b = (if truthy a then a else b)"

text \<open>
  \<^verbatim>\<open>v.k\<close> for the property names the program reads (\<^verbatim>\<open>content\<close>, \<^verbatim>\<open>products\<close>,
  \<^verbatim>\<open>items\<close>, \<^verbatim>\<open>title\<close>, \<^verbatim>\<open>description\<close>, \<^verbatim>\<open>price\<close>, \<^verbatim>\<open>category\<close>,
  \<^verbatim>\<open>prompt\<close>). None of them is inherited from a prototype, so the read gives the own
  property of an object and \<^verbatim>\<open>undefined\<close> on every other value, except on
  \<^verbatim>\<open>null\<close>, where the engine throws a TypeError (the message is V8's).
\<close>

definition quoted :: "string \<Rightarrow> string" where
  "quoted s = [CHR 0x27] @ s @ [CHR 0x27]"

definition null_read :: "string \<Rightarrow> error" where
  "null_read k = TypeError (''Cannot read properties of null (reading '' @ quoted k @ '')'')"

fun get_prop :: "json \<Rightarrow> string \<Rightarrow> error + jsval" where
  "get_prop JNull k = Inl (null_read k)"
| "get_prop (JObj kvs) k = Inr (map_of kvs k)"
| "get_prop v k = Inr None"

section \<open>Selecting the product list in the catalog payload\<close>

text \<open>
  \<^verbatim>\<open>const products = data.content || data.products || data.items || data;\<close>
  The three reads happen left to right as far as the \<^verbatim>\<open>||\<close> chain needs them; on a
  \<^verbatim>\<open>null\<close> payload the first read throws.
\<close>

definition select_products :: "json \<Rightarrow> error + jsval" where
  "select_products d =
     (case get_prop d ''content'' of
        Inl e \<Rightarrow> Inl e
      | Inr c \<Rightarrow>
          if truthy c then Inr c
          else (case get_prop d ''products'' of
                  Inl e \<Rightarrow> Inl e
                | Inr p \<Rightarrow>
                    if truthy p then Inr p
                    else (case get_prop d ''items'' of
                            Inl e \<Rightarrow> Inl e
                          | Inr i \<Rightarrow> Inr (or_else i (Some d)))))"

section \<open>Conversion to text\<close>

text \<open>Sequencing of steps that may throw: the first error ends the evaluation.\<close>

definition and_then :: "error + 'a \<Rightarrow> ('a \<Rightarrow> error + 'b) \<Rightarrow> error + 'b" where
  "and_then r f = (case r of Inl e \<Rightarrow> Inl e | Inr x \<Rightarrow> f x)"

text \<open>
  \<^verbatim>\<open>Array.prototype.join\<close> on strings, as the language defines it: the result starts
  empty, and each element is appended, after the separator for every element but the
  first.
\<close>

fun join_loop :: "string \<Rightarrow> string \<Rightarrow> bool \<Rightarrow> string list \<Rightarrow> string" where
  "join_loop sep r first [] = r"
| "join_loop sep r first (x # xs) = join_loop sep ((if first then r else r @ sep) @ x) False xs"

definition join :: "string \<Rightarrow> string list \<Rightarrow> string" where
  "join sep xs = join_loop sep [] True xs"

text \<open>
  \<^verbatim>\<open>ToString\<close>, which a template literal applies to each substitution. The text of a
  number is the work of \<^verbatim>\<open>Number::toString\<close> on a double, which is not modelled: it is
  the parameter \<open>nts\<close>. An array prints its elements joined by commas, \<^verbatim>\<open>null\<close>
  elements as the empty string. A plain object prints as \<^verbatim>\<open>[object Object]\<close> through
  the inherited \<^verbatim>\<open>toString\<close>; an own property of that name (a JSON value, so not
  callable) hides it, \<^verbatim>\<open>valueOf\<close> gives no primitive, and the engine throws.
\<close>

fun to_string :: "(rat \<Rightarrow> string) \<Rightarrow> json \<Rightarrow> error + string"
  and elements_to_strings :: "(rat \<Rightarrow> string) \<Rightarrow> json list \<Rightarrow> error + string list" where
  "to_string nts JNull = Inr ''null''"
| "to_string nts (JBool b) = Inr (if b then ''true'' else ''false'')"
| "to_string nts (JNum r) = Inr (nts r)"
| "to_string nts (JStr s) = Inr s"
| "to_string nts (JArr xs) =
     (case elements_to_strings nts xs of
        Inl e \<Rightarrow> Inl e
      | Inr ss \<Rightarrow> Inr (join '','' ss))"
| "to_string nts (JObj kvs) =
     (if map_of kvs ''toString'' \<noteq> None
      then Inl (TypeError ''Cannot convert object to primitive value'')
      else Inr ''[object Object]'')"
| "elements_to_strings nts [] = Inr []"
| "elements_to_strings nts (x # xs) =
     (case (if x = JNull then Inr [] else to_string nts x) of
        Inl e \<Rightarrow> Inl e
      | Inr s \<Rightarrow>
          (case elements_to_strings nts xs of
             Inl e \<Rightarrow> Inl e
           | Inr ss \<Rightarrow> Inr (s # ss)))"

definition to_string_val :: "(rat \<Rightarrow> string) \<Rightarrow> jsval \<Rightarrow> error + string" where
  "to_string_val nts v = (case v of None \<Rightarrow> Inr ''undefined'' | Some j \<Rightarrow> to_string nts j)"

text \<open>
  \<^verbatim>\<open>console.log(`Parsed ${products.length} products`)\<close> runs before the array check.
  It reads \<^verbatim>\<open>length\<close>, which an array and a string have, which a plain object has
  only as an own property, and which no other value has, and converts it to text. Only
  whether it throws matters here.
\<close>

definition read_length :: "jsval \<Rightarrow> error + jsval" where
  "read_length v =
     (case v of
        None \<Rightarrow> Inl (TypeError (''Cannot read properties of undefined (reading '' @
                                  quoted ''length'' @ '')''))
      | Some JNull \<Rightarrow> Inl (null_read ''length'')
      | Some (JArr xs) \<Rightarrow> Inr (Some (JNum (of_nat (length xs))))
      | Some (JStr str) \<Rightarrow> Inr (Some (JNum (of_nat (length str))))
      | Some (JObj kvs) \<Rightarrow> Inr (map_of kvs ''length'')
      | Some _ \<Rightarrow> Inr None)"

definition log_parsed :: "(rat \<Rightarrow> string) \<Rightarrow> jsval \<Rightarrow> error + unit" where
  "log_parsed nts products =
     and_then (read_length products) (\<lambda>n.
     and_then (to_string_val nts n) (\<lambda>shown. Inr ()))"

section \<open>The product cache\<close>

text \<open>
  \<^verbatim>\<open>let productCache = { data: [], lastUpdated: null, ttl: 1000 * 60 * 10 };\<close>
  Times are milliseconds, as \<^verbatim>\<open>Date.now()\<close> gives them; \<^verbatim>\<open>lastUpdated\<close> is
  \<^verbatim>\<open>null\<close> (\<open>None\<close>) until the first successful fetch.
\<close>

record cache =
  data :: "json list"
  lastUpdated :: "int option"
  ttl :: int

text \<open>
  The process state: the cache, and the number of calls of \<^verbatim>\<open>fetch\<close> made so far
  (kept so that "no network call" can be stated).
\<close>

record state =
  productCache :: cache
  fetch_calls :: nat

definition initial_cache :: cache where
  "initial_cache = \<lparr>data = [], lastUpdated = None, ttl = 1000 * 60 * 10\<rparr>"

definition initial_state :: state where
  "initial_state = \<lparr>productCache = initial_cache, fetch_calls = 0\<rparr>"

text \<open>
  What \<^verbatim>\<open>await fetch(PRODUCTS_API)\<close> resolves to: \<^verbatim>\<open>ok\<close>, \<^verbatim>\<open>status\<close>, and the
  outcomes of reading the body with \<^verbatim>\<open>response.text()\<close> and \<^verbatim>\<open>response.json()\<close>,
  each of which may reject.
\<close>

record http_response =
  ok :: bool
  status :: nat
  text_result :: "error + string"
  json_result :: "error + json"

text \<open>
  What one call of \<^verbatim>\<open>getProducts\<close> reads from outside: the clock at the validity
  check, the outcome of the fetch (a rejection or a response), and the clock when the
  cache is stored.
\<close>

record net_env =
  now_check :: int
  fetch_result :: "error + http_response"
  now_store :: int

text \<open>
  A time value of \<^verbatim>\<open>Date\<close> lies within 8.64e15 ms of the epoch; every reading of
  \<^verbatim>\<open>Date.now()\<close> does. \<^verbatim>\<open>new Date(t).toISOString()\<close> throws a RangeError outside.
\<close>

definition time_value_ok :: "int \<Rightarrow> bool" where
  "time_value_ok t = (\<bar>t\<bar> \<le> 8640000000000000)"

text \<open>
  The log line at the start of \<^verbatim>\<open>getProducts\<close> evaluates
  \<^verbatim>\<open>productCache.lastUpdated ? new Date(productCache.lastUpdated).toISOString() : 'never'\<close>
  inside the \<^verbatim>\<open>try\<close>. Only whether it throws matters here. The other
  \<^verbatim>\<open>console.log\<close> and \<^verbatim>\<open>console.error\<close> calls cannot throw and are left out.
\<close>

definition log_current_cache :: "cache \<Rightarrow> error + unit" where
  "log_current_cache c =
     (case lastUpdated c of
        None \<Rightarrow> Inr ()
      | Some t \<Rightarrow>
          if t \<noteq> 0 \<and> \<not> time_value_ok t then Inl (RangeError ''Invalid time value'')
          else Inr ())"

text \<open>\<^verbatim>\<open>ToNumber\<close> of \<^verbatim>\<open>lastUpdated\<close> in the subtraction: \<^verbatim>\<open>null\<close> counts as 0.\<close>

definition to_number :: "int option \<Rightarrow> int" where
  "to_number t = (case t of None \<Rightarrow> 0 | Some n \<Rightarrow> n)"

text \<open>
  \<^verbatim>\<open>productCache.data.length > 0 && Date.now() - productCache.lastUpdated < productCache.ttl\<close>
\<close>

definition cache_valid :: "int \<Rightarrow> cache \<Rightarrow> bool" where
  "cache_valid now c = (length (data c) > 0 \<and> now - to_number (lastUpdated c) < ttl c)"

text \<open>The decimal numeral of a status code, as the template literal prints it.\<close>

fun decimal :: "nat \<Rightarrow> string" where
  "decimal n =
     (if n < 10 then [''0123456789'' ! n]
      else decimal (n div 10) @ [''0123456789'' ! (n mod 10)])"

declare decimal.simps [simp del]

text \<open>
  \<^verbatim>\<open>getProducts\<close>: the cached list when the cache is valid; otherwise one fetch, the
  status check, the JSON body, the selection, the log of the length, the array check,
  and the new cache. Every \<^verbatim>\<open>throw\<close> and every rejection leaves through the
  \<^verbatim>\<open>catch\<close>, which rethrows. The text of numbers \<open>nts\<close> is a parameter, as in
  \<open>to_string\<close>.
\<close>

definition getProducts ::
    "(rat \<Rightarrow> string) \<Rightarrow> net_env \<Rightarrow> state \<Rightarrow> (error + json list) \<times> state" where
  "getProducts nts env s =
     (case log_current_cache (productCache s) of
        Inl e \<Rightarrow> (Inl e, s)
      | Inr _ \<Rightarrow>
          if cache_valid (now_check env) (productCache s) then (Inr (data (productCache s)), s)
          else
            (let s1 = s\<lparr>fetch_calls := fetch_calls s + 1\<rparr> in
             case fetch_result env of
               Inl e \<Rightarrow> (Inl e, s1)
             | Inr response \<Rightarrow>
                 if \<not> ok response then
                   (case text_result response of
                      Inl e \<Rightarrow> (Inl e, s1)
                    | Inr errorBody \<Rightarrow>
                        (Inl (Error (''Products API failed: '' @ decimal (status response))), s1))
                 else
                   (case json_result response of
                      Inl e \<Rightarrow> (Inl e, s1)
                    | Inr d \<Rightarrow>
                        (case select_products d of
                           Inl e \<Rightarrow> (Inl e, s1)
                         | Inr products \<Rightarrow>
                             (case log_parsed nts products of
                                Inl e \<Rightarrow> (Inl e, s1)
                              | Inr _ \<Rightarrow>
                                  (case products of
                                     Some (JArr items) \<Rightarrow>
                                       (Inr items,
                                        s1\<lparr>productCache :=
                                             \<lparr>data = items,
                                              lastUpdated = Some (now_store env),
                                              ttl = 1000 * 60 * 10\<rparr>\<rparr>)
                                   | _ \<Rightarrow>
                                       (Inl (Error ''Products data is not an array''), s1)))))))"

text \<open>
  \<^verbatim>\<open>fetchProducts\<close> (defined in the source, called nowhere): the same fetch with no
  validity check and no read of the error body.
\<close>

definition fetchProducts :: "net_env \<Rightarrow> state \<Rightarrow> (error + json list) \<times> state" where
  "fetchProducts env s =
     (let s1 = s\<lparr>fetch_calls := fetch_calls s + 1\<rparr> in
      case fetch_result env of
        Inl e \<Rightarrow> (Inl e, s1)
      | Inr response \<Rightarrow>
          if \<not> ok response then
            (Inl (Error (''Products API failed with status '' @ decimal (status response))), s1)
          else
            (case json_result response of
               Inl e \<Rightarrow> (Inl e, s1)
             | Inr d \<Rightarrow>
                 (case select_products d of
                    Inl e \<Rightarrow> (Inl e, s1)
                  | Inr products \<Rightarrow>
                      (case products of
                         Some (JArr items) \<Rightarrow>
                           (Inr items,
                            s1\<lparr>productCache :=
                                 \<lparr>data = items,
                                  lastUpdated = Some (now_store env),
                                  ttl = 1000 * 60 * 10\<rparr>\<rparr>)
                       | _ \<Rightarrow> (Inl (Error ''Invalid products data format''), s1)))))"

section \<open>Building the prompt\<close>

text \<open>\<^verbatim>\<open>${p.k || 'placeholder'}\<close>: the read, the \<^verbatim>\<open>||\<close>, the conversion to text.\<close>

definition field_text :: "(rat \<Rightarrow> string) \<Rightarrow> json \<Rightarrow> string \<Rightarrow> string \<Rightarrow> error + string" where
  "field_text nts p k placeholder =
     and_then (get_prop p k) (\<lambda>v. to_string_val nts (or_else v (Some (JStr placeholder))))"

text \<open>The template literal of one product, its four substitutions evaluated in order.\<close>

definition block_template :: "string \<Rightarrow> string \<Rightarrow> string \<Rightarrow> string \<Rightarrow> string" where
  "block_template t d pr c =
     ''\<newline>    Product: '' @ t @
     ''\<newline>    Description: '' @ d @
     ''\<newline>    Price: '' @ pr @
     ''\<newline>    Category: '' @ c @
     ''\<newline>  ''"

definition product_block :: "(rat \<Rightarrow> string) \<Rightarrow> json \<Rightarrow> error + string" where
  "product_block nts p =
     and_then (field_text nts p ''title'' ''Unnamed Product'') (\<lambda>t.
     and_then (field_text nts p ''description'' ''No description'') (\<lambda>d.
     and_then (field_text nts p ''price'' ''N/A'') (\<lambda>pr.
     and_then (field_text nts p ''category'' ''Uncategorized'') (\<lambda>c.
     Inr (block_template t d pr c)))))"

text \<open>\<^verbatim>\<open>Array.prototype.map\<close> with a callback that may throw: the first throw ends it.\<close>

fun map_throwing :: "('a \<Rightarrow> error + 'b) \<Rightarrow> 'a list \<Rightarrow> error + 'b list" where
  "map_throwing f [] = Inr []"
| "map_throwing f (x # xs) =
     (case f x of
        Inl e \<Rightarrow> Inl e
      | Inr y \<Rightarrow>
          (case map_throwing f xs of
             Inl e \<Rightarrow> Inl e
           | Inr ys \<Rightarrow> Inr (y # ys)))"

definition buildProductContext :: "(rat \<Rightarrow> string) \<Rightarrow> json list \<Rightarrow> error + string" where
  "buildProductContext nts products =
     and_then (map_throwing (product_block nts) products)
       (\<lambda>blocks. Inr (join ''\<newline>\<newline>'' blocks))"

text \<open>The template literal \<^verbatim>\<open>constrainedPrompt\<close> of the chat endpoint.\<close>

definition constrainedPrompt :: "(rat \<Rightarrow> string) \<Rightarrow> jsval \<Rightarrow> json list \<Rightarrow> error + string" where
  "constrainedPrompt nts prompt products =
     and_then (to_string_val nts prompt) (\<lambda>q.
     and_then (buildProductContext nts products) (\<lambda>ctx.
     Inr (''\<newline>      [Respond in under 40 words]'' @
          ''\<newline>      User Query: '' @ q @
          ''\<newline>      '' @
          ''\<newline>      Available Products:'' @
          ''\<newline>      '' @ ctx @
          ''\<newline>      '' @
          ''\<newline>      Response Requirements:'' @
          ''\<newline>      - Concise bullet points'' @
          ''\<newline>      - Max 200 tokens'' @
          ''\<newline>      - Prioritize most relevant products'' @
          ''\<newline>    '')))"

section \<open>The chat endpoint\<close>

text \<open>\<^verbatim>\<open>typeof\<close>.\<close>

fun typeof :: "jsval \<Rightarrow> string" where
  "typeof None = ''undefined''"
| "typeof (Some JNull) = ''object''"
| "typeof (Some (JBool b)) = ''boolean''"
| "typeof (Some (JNum r)) = ''number''"
| "typeof (Some (JStr s)) = ''string''"
| "typeof (Some (JArr xs)) = ''object''"
| "typeof (Some (JObj kvs)) = ''object''"

text \<open>
  \<^verbatim>\<open>String.prototype.trim\<close> removes white space and line terminators at both ends;
  among the code units below 256 these are 9 to 13, 32 and 160.
\<close>

definition is_space :: "char \<Rightarrow> bool" where
  "is_space c = ((of_char c :: nat) \<in> {9, 10, 11, 12, 13, 32, 160})"

definition trim :: "string \<Rightarrow> string" where
  "trim s = rev (dropWhile is_space (rev (dropWhile is_space s)))"

text \<open>
  \<^verbatim>\<open>!prompt || typeof prompt !== 'string' || prompt.trim().length === 0\<close>. The third
  test is reached only by a string.
\<close>

definition prompt_rejected :: "jsval \<Rightarrow> bool" where
  "prompt_rejected prompt =
     (\<not> truthy prompt \<or> typeof prompt \<noteq> ''string'' \<or>
      (case prompt of Some (JStr str) \<Rightarrow> length (trim str) = 0 | _ \<Rightarrow> False))"

text \<open>\<^verbatim>\<open>response.split(' ')\<close>: the pieces between single spaces.\<close>

fun split_on :: "char \<Rightarrow> string \<Rightarrow> string list" where
  "split_on c [] = [[]]"
| "split_on c (x # xs) =
     (if x = c then [] # split_on c xs
      else (case split_on c xs of
              [] \<Rightarrow> [[x]]
            | w # ws \<Rightarrow> (x # w) # ws))"

text \<open>
  \<^verbatim>\<open>response.split(' ').length * 1.33\<close> is a product of doubles. The left factor is a
  length, which a double holds exactly. The literal \<^verbatim>\<open>1.33\<close> is the double
  \<open>748723438050345 / 2^49\<close>. The exact product of the two is rounded to the nearest
  double, that is to 53 significant bits, a tie going to the even one; a length is far
  from the range where a double overflows. A double is kept as its exact rational value.
\<close>

definition mantissa_133 :: nat where
  "mantissa_133 = 748723438050345"

fun bit_length :: "nat \<Rightarrow> nat" where
  "bit_length n = (if n = 0 then 0 else Suc (bit_length (n div 2)))"

declare bit_length.simps [simp del]

definition round_to_53 :: "nat \<Rightarrow> nat" where
  "round_to_53 n =
     (let k = bit_length n - 53; q = n div 2 ^ k; r = n mod 2 ^ k
      in if 0 < k \<and> (2 ^ k < 2 * r \<or> (2 * r = 2 ^ k \<and> odd q)) then (q + 1) * 2 ^ k
         else q * 2 ^ k)"

definition times_133 :: "nat \<Rightarrow> rat" where
  "times_133 n = of_nat (round_to_53 (n * mantissa_133)) / 2 ^ 49"

text \<open>
  What the endpoint sends: a status code and a JSON body, either
  \<^verbatim>\<open>{ error }\<close> or \<^verbatim>\<open>{ response, tokenEstimate, productsUsed }\<close>.
\<close>

datatype reply_body =
    ErrorJson string
  | ChatJson (response: string) (tokenEstimate: rat) (productsUsed: nat)

datatype reply = Reply (status_code: nat) (body: reply_body)

text \<open>
  What one request reads from outside: the environment of \<^verbatim>\<open>getProducts\<close>, and the
  generation engine, which maps the prompt to its text or fails
  (\<^verbatim>\<open>model.generateContent\<close>, \<^verbatim>\<open>result.response\<close>, \<^verbatim>\<open>text()\<close>).
  \<^verbatim>\<open>genAI.getGenerativeModel\<close> only builds the model object from constants.
\<close>

record chat_env =
  net :: net_env
  generate :: "string \<Rightarrow> error + string"

text \<open>
  \<^verbatim>\<open>const { prompt } = req.body;\<close> throws on a body that is \<^verbatim>\<open>undefined\<close> or
  \<^verbatim>\<open>null\<close> (the message is V8's).
\<close>

definition destructure_prompt :: "jsval \<Rightarrow> error + jsval" where
  "destructure_prompt b =
     (case b of
        None \<Rightarrow>
          Inl (TypeError (''Cannot destructure property '' @ quoted ''prompt'' @ '' of '' @
                          quoted ''req.body'' @ '' as it is undefined.''))
      | Some JNull \<Rightarrow>
          Inl (TypeError (''Cannot destructure property '' @ quoted ''prompt'' @ '' of '' @
                          quoted ''req.body'' @ '' as it is null.''))
      | Some v \<Rightarrow> get_prop v ''prompt'')"

text \<open>The \<^verbatim>\<open>try\<close> block of the handler.\<close>

definition chat_try :: "(rat \<Rightarrow> string) \<Rightarrow> chat_env \<Rightarrow> state \<Rightarrow> jsval \<Rightarrow> (error + reply) \<times> state" where
  "chat_try nts env s req_body =
     (case destructure_prompt req_body of
        Inl e \<Rightarrow> (Inl e, s)
      | Inr prompt \<Rightarrow>
          if prompt_rejected prompt then
            (Inr (Reply 400 (ErrorJson ''Prompt is required and must be a non-empty string.'')), s)
          else
            (case getProducts nts (net env) s of
               (Inl e, s') \<Rightarrow> (Inl e, s')
             | (Inr products, s') \<Rightarrow>
                 (case constrainedPrompt nts prompt products of
                    Inl e \<Rightarrow> (Inl e, s')
                  | Inr p \<Rightarrow>
                      (case generate env p of
                         Inl e \<Rightarrow> (Inl e, s')
                       | Inr text \<Rightarrow>
                           (Inr (Reply 200
                                  (ChatJson text
                                     (times_133 (length (split_on CHR '' '' text)))
                                     (length products))),
                            s')))))"

text \<open>The handler: the \<^verbatim>\<open>catch\<close> turns every error into a 500 with its message.\<close>

definition chat :: "(rat \<Rightarrow> string) \<Rightarrow> chat_env \<Rightarrow> state \<Rightarrow> jsval \<Rightarrow> reply \<times> state" where
  "chat nts env s req_body =
     (case chat_try nts env s req_body of
        (Inl e, s') \<Rightarrow> (Reply 500 (ErrorJson (message e)), s')
      | (Inr r, s') \<Rightarrow> (r, s'))"

section \<open>Notions used to state the properties\<close>

text \<open>
  A cache is well formed when \<^verbatim>\<open>lastUpdated\<close> is \<^verbatim>\<open>null\<close> or a time value, as it
  is whenever it was stored from a reading of \<^verbatim>\<open>Date.now()\<close>.
\<close>

definition well_formed :: "cache \<Rightarrow> bool" where
  "well_formed c = (case lastUpdated c of None \<Rightarrow> True | Some t \<Rightarrow> time_value_ok t)"

text \<open>
  The states the process can be in: the initial one, and the state after any call of
  \<^verbatim>\<open>getProducts\<close>, of \<^verbatim>\<open>fetchProducts\<close> or of the chat handler, in an environment
  whose clock gives time values.
\<close>

inductive reachable :: "state \<Rightarrow> bool" where
  start: "reachable initial_state"
| get:
    "reachable s \<Longrightarrow> time_value_ok (now_store env) \<Longrightarrow>
     reachable (snd (getProducts nts env s))"
| fetch: "reachable s \<Longrightarrow> time_value_ok (now_store env) \<Longrightarrow> reachable (snd (fetchProducts env s))"
| request:
    "reachable s \<Longrightarrow> time_value_ok (now_store (net cenv)) \<Longrightarrow>
     reachable (snd (chat nts cenv s req_body))"

text \<open>The own property of an object; every other value has none.\<close>

fun own_property :: "json \<Rightarrow> string \<Rightarrow> jsval" where
  "own_property (JObj kvs) k = map_of kvs k"
| "own_property v k = None"

text \<open>
  Probing a payload: the value of the first of the given fields that passes the test,
  and the whole payload when none does.
\<close>

definition probe :: "(jsval \<Rightarrow> bool) \<Rightarrow> string list \<Rightarrow> json \<Rightarrow> jsval" where
  "probe test ks d =
     (case find (\<lambda>k. test (own_property d k)) ks of
        Some k \<Rightarrow> own_property d k
      | None \<Rightarrow> Some d)"

text \<open>
  The selection as the specification words it: the fields \<^verbatim>\<open>content\<close>, \<^verbatim>\<open>items\<close>,
  \<^verbatim>\<open>products\<close> in this order, the first that exists.
\<close>

definition select_documented :: "json \<Rightarrow> jsval" where
  "select_documented d = probe (\<lambda>v. v \<noteq> None) [''content'', ''items'', ''products''] d"

text \<open>Blocks joined by a blank line, by recursion on the list of blocks.\<close>

fun blank_line_joined :: "string list \<Rightarrow> string" where
  "blank_line_joined [] = []"
| "blank_line_joined [b] = b"
| "blank_line_joined (b # b' # bs) = b @ ''\<newline>\<newline>'' @ blank_line_joined (b' # bs)"

text \<open>
  A product record whose four fields are each absent or a primitive value (a string, a
  number, a boolean or \<^verbatim>\<open>null\<close>).
\<close>

fun primitive :: "json \<Rightarrow> bool" where
  "primitive (JArr xs) = False"
| "primitive (JObj kvs) = False"
| "primitive v = True"

definition flat_field :: "(string \<times> json) list \<Rightarrow> string \<Rightarrow> bool" where
  "flat_field kvs k = (case map_of kvs k of None \<Rightarrow> True | Some v \<Rightarrow> primitive v)"

fun flat_product :: "json \<Rightarrow> bool" where
  "flat_product (JObj kvs) =
     (flat_field kvs ''title'' \<and> flat_field kvs ''description'' \<and>
      flat_field kvs ''price'' \<and> flat_field kvs ''category'')"
| "flat_product v = False"

text \<open>
  For the concrete examples: the text of a number that is an integer from 0 up to 1e21,
  where \<^verbatim>\<open>Number::toString\<close> gives the decimal numeral.
\<close>

definition integer_text :: "rat \<Rightarrow> string" where
  "integer_text r = decimal (nat \<lfloor>r\<rfloor>)"

text \<open>A phrase occurs in a string (\<^verbatim>\<open>String.prototype.includes\<close>).\<close>

fun starts_with :: "string \<Rightarrow> string \<Rightarrow> bool" where
  "starts_with [] s = True"
| "starts_with (p # ps) [] = False"
| "starts_with (p # ps) (c # cs) = (p = c \<and> starts_with ps cs)"

fun contains_text :: "string \<Rightarrow> string \<Rightarrow> bool" where
  "contains_text [] phrase = (phrase = [])"
| "contains_text (c # cs) phrase = (starts_with phrase (c # cs) \<or> contains_text cs phrase)"

section \<open>Concrete inputs for the examples\<close>

text \<open>
  The catalog of one product of the specification's scenario, a state that cached it at
  time 1000, environments whose network is down or answers with a given response, and a
  chat environment with a given generation engine.
\<close>

definition sneaker :: json where
  "sneaker = JObj [(''title'', JStr ''Sneaker''), (''price'', JNum 20)]"

definition cached_state :: state where
  "cached_state =
     \<lparr>productCache = \<lparr>data = [sneaker], lastUpdated = Some 1000, ttl = 600000\<rparr>,
      fetch_calls = 1\<rparr>"

definition offline :: "int \<Rightarrow> net_env" where
  "offline now =
     \<lparr>now_check = now, fetch_result = Inl (FetchError ''offline''), now_store = now\<rparr>"

definition answering :: "int \<Rightarrow> http_response \<Rightarrow> net_env" where
  "answering now r = \<lparr>now_check = now, fetch_result = Inr r, now_store = now\<rparr>"

definition shop :: "(string \<Rightarrow> error + string) \<Rightarrow> int \<Rightarrow> chat_env" where
  "shop g now = \<lparr>net = offline now, generate = g\<rparr>"

definition shoes_request :: jsval where
  "shoes_request = Some (JObj [(''prompt'', JStr ''Show me cheap shoes'')])"

section \<open>Basic facts about the cache\<close>

lemma well_formed_log: "well_formed c \<Longrightarrow> log_current_cache c = Inr ()"
  by (auto simp: well_formed_def log_current_cache_def split: option.splits)

lemma select_products_probe:
  "d \<noteq> JNull \<Longrightarrow>
   select_products d = Inr (probe truthy [''content'', ''products'', ''items''] d)"
  by (cases d) (auto simp: select_products_def probe_def or_else_def split: option.splits)

lemma select_products_null: "select_products JNull = Inl (null_read ''content'')"
  by (simp add: select_products_def)

text \<open>On a well-formed cache that is not valid, \<open>getProducts\<close> is the fetch path.\<close>

lemma getProducts_miss:
  assumes "well_formed (productCache s)"
    and "\<not> cache_valid (now_check env) (productCache s)"
  shows "getProducts nts env s =
     (let s1 = s\<lparr>fetch_calls := fetch_calls s + 1\<rparr> in
      case fetch_result env of
        Inl e \<Rightarrow> (Inl e, s1)
      | Inr r \<Rightarrow>
          if \<not> ok r then
            (case text_result r of
               Inl e \<Rightarrow> (Inl e, s1)
             | Inr errorBody \<Rightarrow>
                 (Inl (Error (''Products API failed: '' @ decimal (status r))), s1))
          else
            (case json_result r of
               Inl e \<Rightarrow> (Inl e, s1)
             | Inr d \<Rightarrow>
                 (case select_products d of
                    Inl e \<Rightarrow> (Inl e, s1)
                  | Inr products \<Rightarrow>
                      (case log_parsed nts products of
                         Inl e \<Rightarrow> (Inl e, s1)
                       | Inr u \<Rightarrow>
                           (case products of
                              Some (JArr items) \<Rightarrow>
                                (Inr items,
                                 s1\<lparr>productCache :=
                                      \<lparr>data = items,
                                       lastUpdated = Some (now_store env),
                                       ttl = 1000 * 60 * 10\<rparr>\<rparr>)
                            | _ \<Rightarrow> (Inl (Error ''Products data is not an array''), s1))))))"
  using assms by (simp add: getProducts_def well_formed_log)

text \<open>The log of the length prints for an array, and whenever there is no \<^verbatim>\<open>length\<close>.\<close>

lemma log_parsed_array: "log_parsed nts (Some (JArr items)) = Inr ()"
  by (simp add: log_parsed_def read_length_def and_then_def to_string_val_def)


lemma getProducts_cache_cases:
  "productCache (snd (getProducts nts env s)) = productCache s \<or>
   (\<exists>items. fst (getProducts nts env s) = Inr items \<and>
      productCache (snd (getProducts nts env s)) =
        \<lparr>data = items, lastUpdated = Some (now_store env), ttl = 1000 * 60 * 10\<rparr>)"
  by (auto simp: getProducts_def Let_def split: sum.splits option.splits json.splits if_splits)

section \<open>C1: which part of the payload is the product list\<close>

text \<open>
  C1, as the specification states it: the fields are probed in the order \<^verbatim>\<open>content\<close>,
  \<^verbatim>\<open>items\<close>, \<^verbatim>\<open>products\<close>, and the first field that exists is selected. The code
  differs on two payloads. On \<^verbatim>\<open>{"items": [1], "products": [2]}\<close> it selects
  \<^verbatim>\<open>[2]\<close>, the value of \<^verbatim>\<open>products\<close>, where the stated order selects \<^verbatim>\<open>[1]\<close>.
  On \<^verbatim>\<open>{"content": null, "products": [2]}\<close> it selects \<^verbatim>\<open>[2]\<close>, where the first
  field that exists is \<^verbatim>\<open>content\<close>, with the value \<^verbatim>\<open>null\<close>.
\<close>

theorem select_products_differs_from_documented:
  "select_products (JObj [(''items'', JArr [JNum 1]), (''products'', JArr [JNum 2])]) =
     Inr (Some (JArr [JNum 2])) \<and>
   select_documented (JObj [(''items'', JArr [JNum 1]), (''products'', JArr [JNum 2])]) =
     Some (JArr [JNum 1]) \<and>
   select_products (JObj [(''content'', JNull), (''products'', JArr [JNum 2])]) =
     Inr (Some (JArr [JNum 2])) \<and>
   select_documented (JObj [(''content'', JNull), (''products'', JArr [JNum 2])]) =
     Some JNull"
  by (simp add: select_products_def select_documented_def probe_def or_else_def)

text \<open>
  C1, amended: on a payload other than \<^verbatim>\<open>null\<close>, the product list is selected by
  probing the fields in the order \<^verbatim>\<open>content\<close>, \<^verbatim>\<open>products\<close>, \<^verbatim>\<open>items\<close>; the
  first field whose value is truthy is selected, and the whole payload when none is.
  The selected value is used even when it is not an array, and \<open>getProducts\<close> then
  fails: with the error "Products data is not an array", when the log line that prints
  the length of the selected value does not throw before.
\<close>

theorem select_products_first_truthy:
  assumes "d \<noteq> JNull"
  shows "select_products d = Inr (probe truthy [''content'', ''products'', ''items''] d) \<and>
    (\<forall>nts env s r.
       well_formed (productCache s) \<and> \<not> cache_valid (now_check env) (productCache s) \<and>
       fetch_result env = Inr r \<and> ok r \<and> json_result r = Inr d \<and>
       (\<forall>items. probe truthy [''content'', ''products'', ''items''] d \<noteq> Some (JArr items))
       \<longrightarrow> (\<exists>e. fst (getProducts nts env s) = Inl e) \<and>
           (log_parsed nts (probe truthy [''content'', ''products'', ''items''] d) = Inr ()
            \<longrightarrow> fst (getProducts nts env s) = Inl (Error ''Products data is not an array'')))"
proof (intro conjI allI impI)
  show sel: "select_products d = Inr (probe truthy [''content'', ''products'', ''items''] d)"
    using assms by (rule select_products_probe)
  fix nts :: "rat \<Rightarrow> string" and env :: net_env and s :: state and r :: http_response
  assume h: "well_formed (productCache s) \<and> \<not> cache_valid (now_check env) (productCache s) \<and>
       fetch_result env = Inr r \<and> ok r \<and> json_result r = Inr d \<and>
       (\<forall>items. probe truthy [''content'', ''products'', ''items''] d \<noteq> Some (JArr items))"
  then show "\<exists>e. fst (getProducts nts env s) = Inl e"
    by (auto simp: getProducts_miss sel Let_def split: sum.splits option.splits json.splits)
  assume "log_parsed nts (probe truthy [''content'', ''products'', ''items''] d) = Inr ()"
  with h show "fst (getProducts nts env s) = Inl (Error ''Products data is not an array'')"
    by (auto simp: getProducts_miss sel Let_def split: option.splits json.splits)
qed

theorem select_products_first_truthy_witness:
  "select_products (JObj [(''items'', JArr [JNum 1]), (''products'', JArr [JNum 2])]) =
     Inr (Some (JArr [JNum 2])) \<and>
   fst (getProducts integer_text
         \<lparr>now_check = 5000,
          fetch_result = Inr \<lparr>ok = True, status = 200, text_result = Inr [],
            json_result = Inr (JObj [(''content'', JStr ''soon''), (''products'', JArr [])])\<rparr>,
          now_store = 5001\<rparr>
         initial_state) = Inl (Error ''Products data is not an array'')"
proof -
  let ?d1 = "JObj [(''items'', JArr [JNum 1]), (''products'', JArr [JNum 2])]"
  let ?d2 = "JObj [(''content'', JStr ''soon''), (''products'', JArr [])]"
  let ?r = "\<lparr>ok = True, status = 200, text_result = Inr [], json_result = Inr ?d2\<rparr>"
  let ?env = "\<lparr>now_check = 5000, fetch_result = Inr ?r, now_store = 5001\<rparr>"
  have a: "?d1 \<noteq> JNull" and b: "?d2 \<noteq> JNull" by simp_all
  have "select_products ?d1 = Inr (probe truthy [''content'', ''products'', ''items''] ?d1)"
    using select_products_first_truthy [OF a] by (rule conjunct1)
  then have 1: "select_products ?d1 = Inr (Some (JArr [JNum 2]))"
    by (simp add: probe_def)
  have 2: "fst (getProducts integer_text ?env initial_state) = Inl (Error ''Products data is not an array'')"
    using select_products_first_truthy [OF b, THEN conjunct2, rule_format,
        where nts = integer_text and env = "?env" and s = initial_state and r = "?r"]
    by (simp add: well_formed_def initial_state_def initial_cache_def cache_valid_def probe_def
        log_parsed_def read_length_def and_then_def to_string_val_def)
  from 1 2 show ?thesis by simp
qed

section \<open>C2: a valid cache is served without a fetch\<close>

text \<open>
  C2: for every cache whose list of items is not empty and whose age, the time of the
  check minus \<^verbatim>\<open>lastUpdated\<close>, is below its \<^verbatim>\<open>ttl\<close>, \<open>getProducts\<close> returns the
  stored items, in the stored order, and leaves the state as it was: the cache is the
  same and no call of \<^verbatim>\<open>fetch\<close> was made. The cache is well formed: its
  \<^verbatim>\<open>lastUpdated\<close> is \<^verbatim>\<open>null\<close> or a time value.
\<close>

theorem getProducts_serves_valid_cache:
  assumes "data (productCache s) \<noteq> []"
    and "now_check env - to_number (lastUpdated (productCache s)) < ttl (productCache s)"
    and "well_formed (productCache s)"
  shows "getProducts nts env s = (Inr (data (productCache s)), s)"
  using assms by (simp add: getProducts_def well_formed_log cache_valid_def)

text \<open>
  A cache stored at time 1000 and read at time 600999 is served, whatever the network
  would have answered.
\<close>

theorem getProducts_serves_valid_cache_witness:
  "getProducts integer_text
     \<lparr>now_check = 600999, fetch_result = Inl (FetchError ''offline''), now_store = 601000\<rparr>
     \<lparr>productCache =
        \<lparr>data = [JObj [(''title'', JStr ''Sneaker''), (''price'', JNum 20)]],
         lastUpdated = Some 1000, ttl = 600000\<rparr>,
      fetch_calls = 1\<rparr>
   = (Inr [JObj [(''title'', JStr ''Sneaker''), (''price'', JNum 20)]],
      \<lparr>productCache =
        \<lparr>data = [JObj [(''title'', JStr ''Sneaker''), (''price'', JNum 20)]],
         lastUpdated = Some 1000, ttl = 600000\<rparr>,
      fetch_calls = 1\<rparr>)"
  using getProducts_serves_valid_cache
    [where nts = integer_text and s = "\<lparr>productCache =
           \<lparr>data = [JObj [(''title'', JStr ''Sneaker''), (''price'', JNum 20)]],
            lastUpdated = Some 1000, ttl = 600000\<rparr>,
         fetch_calls = 1\<rparr>"
      and env = "\<lparr>now_check = 600999, fetch_result = Inl (FetchError ''offline''),
          now_store = 601000\<rparr>"]
  by (simp add: to_number_def well_formed_def time_value_ok_def)

section \<open>C3: an empty cache is never served\<close>

text \<open>
  C3: for every well-formed cache whose list of items is empty, the cache is not valid
  at any time \<open>now\<close>, whatever \<^verbatim>\<open>lastUpdated\<close> is, and \<open>getProducts\<close> makes one call
  of \<^verbatim>\<open>fetch\<close>.
\<close>

theorem getProducts_empty_cache_fetches:
  assumes "data (productCache s) = []" and "well_formed (productCache s)"
  shows "\<not> cache_valid now (productCache s) \<and>
         fetch_calls (snd (getProducts nts env s)) = fetch_calls s + 1"
proof
  show nv: "\<not> cache_valid now (productCache s)" for now
    using assms(1) by (simp add: cache_valid_def)
  show "fetch_calls (snd (getProducts nts env s)) = fetch_calls s + 1"
    using assms(2) nv [of "now_check env"]
    by (simp add: getProducts_miss Let_def split: sum.splits option.splits json.splits)
qed

text \<open>An empty list stored one millisecond ago is fetched again.\<close>

theorem getProducts_empty_cache_fetches_witness:
  "\<not> cache_valid 1001 \<lparr>data = [], lastUpdated = Some 1000, ttl = 600000\<rparr> \<and>
   fetch_calls (snd (getProducts integer_text
     \<lparr>now_check = 1001, fetch_result = Inl (FetchError ''offline''), now_store = 1002\<rparr>
     \<lparr>productCache = \<lparr>data = [], lastUpdated = Some 1000, ttl = 600000\<rparr>,
      fetch_calls = 1\<rparr>)) = 2"
  using getProducts_empty_cache_fetches
    [where nts = integer_text and now = 1001
      and s = "\<lparr>productCache = \<lparr>data = [], lastUpdated = Some 1000, ttl = 600000\<rparr>,
         fetch_calls = 1\<rparr>"
      and env = "\<lparr>now_check = 1001, fetch_result = Inl (FetchError ''offline''),
         now_store = 1002\<rparr>"]
  by (simp add: well_formed_def time_value_ok_def)

section \<open>Basic facts about the prompt and the endpoint\<close>

lemma field_text_falsy:
  "get_prop p k = Inr v \<Longrightarrow> \<not> truthy v \<Longrightarrow> field_text nts p k ph = Inr ph"
  by (simp add: field_text_def and_then_def or_else_def to_string_val_def)

lemma field_text_truthy:
  "get_prop p k = Inr (Some v) \<Longrightarrow> truthy (Some v) \<Longrightarrow> field_text nts p k ph = to_string nts v"
  by (simp add: field_text_def and_then_def or_else_def to_string_val_def)

lemma product_block_fields:
  assumes "product_block nts p = Inr b"
  shows "\<exists>t d pr c.
     field_text nts p ''title'' ''Unnamed Product'' = Inr t \<and>
     field_text nts p ''description'' ''No description'' = Inr d \<and>
     field_text nts p ''price'' ''N/A'' = Inr pr \<and>
     field_text nts p ''category'' ''Uncategorized'' = Inr c \<and>
     b = block_template t d pr c"
  using assms by (auto simp: product_block_def and_then_def split: sum.splits)

lemma join_loop_False: "join_loop sep r False xs = r @ concat (map (\<lambda>x. sep @ x) xs)"
  by (induction xs arbitrary: r) simp_all

lemma join_Cons: "join sep (x # xs) = x @ concat (map (\<lambda>y. sep @ y) xs)"
  by (simp add: join_def join_loop_False)

lemma blank_line_joined_Cons:
  "blank_line_joined (b # bs) = b @ concat (map (\<lambda>y. ''\<newline>\<newline>'' @ y) bs)"
  by (induction bs arbitrary: b) simp_all

lemma join_blank_line: "join ''\<newline>\<newline>'' bs = blank_line_joined bs"
proof (cases bs)
  case Nil
  then show ?thesis by (simp add: join_def)
next
  case (Cons b rest)
  then show ?thesis by (simp only: join_Cons blank_line_joined_Cons)
qed

lemma map_throwing_Inr:
  "map_throwing f xs = Inr ys \<Longrightarrow>
   length ys = length xs \<and> (\<forall>i<length xs. f (xs ! i) = Inr (ys ! i))"
proof (induction xs arbitrary: ys)
  case Nil
  then show ?case by simp
next
  case (Cons x xs)
  from Cons.prems obtain y rest where y: "f x = Inr y" and rest: "map_throwing f xs = Inr rest"
    and ys: "ys = y # rest"
    by (auto split: sum.splits)
  from Cons.IH [OF rest] have len: "length rest = length xs"
    and nth: "\<forall>i<length xs. f (xs ! i) = Inr (rest ! i)" by simp_all
  show ?case
  proof (intro conjI allI impI)
    show "length ys = length (x # xs)" using len ys by simp
    fix i assume "i < length (x # xs)"
    then show "f ((x # xs) ! i) = Inr (ys ! i)"
      using y nth ys by (cases i) simp_all
  qed
qed

lemma map_throwing_total:
  "(\<forall>x\<in>set xs. \<exists>y. f x = Inr y) \<Longrightarrow> \<exists>ys. map_throwing f xs = Inr ys"
  by (induction xs) (auto split: sum.splits)

lemma primitive_to_string: "primitive v \<Longrightarrow> \<exists>t. to_string nts v = Inr t"
  by (cases v) simp_all

lemma flat_field_text:
  "flat_field kvs k \<Longrightarrow> \<exists>t. field_text nts (JObj kvs) k ph = Inr t"
  using primitive_to_string
  by (auto simp: flat_field_def field_text_def and_then_def or_else_def to_string_val_def
      split: option.splits)

lemma flat_product_block: "flat_product p \<Longrightarrow> \<exists>b. product_block nts p = Inr b"
proof (cases p)
  case (JObj kvs)
  assume "flat_product p"
  with JObj have f: "flat_field kvs ''title''" "flat_field kvs ''description''"
    "flat_field kvs ''price''" "flat_field kvs ''category''" by simp_all
  from flat_field_text [OF f(1)] obtain t
    where t: "field_text nts (JObj kvs) ''title'' ''Unnamed Product'' = Inr t" by blast
  from flat_field_text [OF f(2)] obtain d
    where d: "field_text nts (JObj kvs) ''description'' ''No description'' = Inr d" by blast
  from flat_field_text [OF f(3)] obtain pr
    where pr: "field_text nts (JObj kvs) ''price'' ''N/A'' = Inr pr" by blast
  from flat_field_text [OF f(4)] obtain c
    where c: "field_text nts (JObj kvs) ''category'' ''Uncategorized'' = Inr c" by blast
  show ?thesis using JObj t d pr c by (simp add: product_block_def and_then_def)
qed simp_all

lemma empty_context: "buildProductContext nts [] = Inr []"
  by (simp add: buildProductContext_def and_then_def join_def)

lemma laptops_prompt:
  "constrainedPrompt nts (Some (JStr ''laptops'')) [] =
   Inr ''\<newline>      [Respond in under 40 words]\<newline>      User Query: laptops\<newline>      \<newline>      Available Products:\<newline>      \<newline>      \<newline>      Response Requirements:\<newline>      - Concise bullet points\<newline>      - Max 200 tokens\<newline>      - Prioritize most relevant products\<newline>    ''"
  by (simp add: constrainedPrompt_def empty_context and_then_def to_string_val_def)

lemma prompt_rejected_iff:
  "prompt_rejected p \<longleftrightarrow>
   (p = None \<or> typeof p \<noteq> ''string'' \<or> (\<exists>str. p = Some (JStr str) \<and> trim str = []))"
proof (cases p)
  case None
  then show ?thesis by (simp add: prompt_rejected_def)
next
  case (Some v)
  then show ?thesis
    by (cases v) (auto simp: prompt_rejected_def trim_def)
qed

lemma split_on_length: "length (split_on c s) = Suc (length (filter (\<lambda>x. x = c) s))"
  by (induction s) (auto split: list.splits)

lemma chat_rejected:
  assumes "destructure_prompt req_body = Inr p" and "prompt_rejected p"
  shows "chat nts env s req_body =
    (Reply 400 (ErrorJson ''Prompt is required and must be a non-empty string.''), s)"
  using assms by (simp add: chat_def chat_try_def)

lemma destructure_value:
  "v \<noteq> JNull \<Longrightarrow> destructure_prompt (Some v) = get_prop v ''prompt''"
  by (cases v) (simp_all add: destructure_prompt_def)

lemma fetchProducts_cache_cases:
  "productCache (snd (fetchProducts env s)) = productCache s \<or>
   (\<exists>items. fst (fetchProducts env s) = Inr items \<and>
      productCache (snd (fetchProducts env s)) =
        \<lparr>data = items, lastUpdated = Some (now_store env), ttl = 1000 * 60 * 10\<rparr>)"
  by (auto simp: fetchProducts_def Let_def split: sum.splits option.splits json.splits if_splits)

lemma chat_state:
  "snd (chat nts env s b) = s \<or> snd (chat nts env s b) = snd (getProducts nts (net env) s)"
  by (auto simp: chat_def chat_try_def split: sum.splits prod.splits)

lemma reachable_ttl: "reachable s \<Longrightarrow> ttl (productCache s) = 1000 * 60 * 10"
proof (induction rule: reachable.induct)
  case start
  show ?case by (simp add: initial_state_def initial_cache_def)
next
  case (get s env nts)
  then show ?case using getProducts_cache_cases [of nts env s] by auto
next
  case (fetch s env)
  then show ?case using fetchProducts_cache_cases [of env s] by auto
next
  case (request s cenv nts req_body)
  then show ?case
    using getProducts_cache_cases [of nts "net cenv" s] chat_state [of nts cenv s req_body] by auto
qed

lemma reachable_well_formed: "reachable s \<Longrightarrow> well_formed (productCache s)"
proof (induction rule: reachable.induct)
  case start
  show ?case by (simp add: initial_state_def initial_cache_def well_formed_def)
next
  case (get s env nts)
  then show ?case using getProducts_cache_cases [of nts env s] by (auto simp: well_formed_def)
next
  case (fetch s env)
  then show ?case using fetchProducts_cache_cases [of env s] by (auto simp: well_formed_def)
next
  case (request s cenv nts req_body)
  then show ?case
    using getProducts_cache_cases [of nts "net cenv" s] chat_state [of nts cenv s req_body]
    by (auto simp: well_formed_def)
qed



lemma getProducts_cached: "getProducts integer_text (offline 2000) cached_state = (Inr [sneaker], cached_state)"
  by (simp add: getProducts_def offline_def cached_state_def log_current_cache_def
      time_value_ok_def cache_valid_def to_number_def)

lemma getProducts_stale:
  "getProducts integer_text (offline 700000) cached_state =
   (Inl (FetchError ''offline''), cached_state\<lparr>fetch_calls := 2\<rparr>)"
  by (simp add: getProducts_def offline_def cached_state_def log_current_cache_def
      time_value_ok_def cache_valid_def to_number_def)

lemma shoes_prompt:
  "\<exists>q. constrainedPrompt integer_text (Some (JStr ''Show me cheap shoes'')) [sneaker] = Inr q"
  by (simp add: constrainedPrompt_def buildProductContext_def product_block_def field_text_def
      and_then_def or_else_def to_string_val_def sneaker_def)

text \<open>The text of a block and of the prompt, written out.\<close>

lemma get_prop_own: "p \<noteq> JNull \<Longrightarrow> get_prop p k = Inr (own_property p k)"
  by (cases p) simp_all

lemma field_text_Inr:
  assumes "field_text nts p k ph = Inr t"
  shows "p \<noteq> JNull \<and> (\<not> truthy (own_property p k) \<longrightarrow> t = ph) \<and>
         (truthy (own_property p k) \<longrightarrow> to_string_val nts (own_property p k) = Inr t)"
proof -
  from assms have nn: "p \<noteq> JNull"
    by (auto simp: field_text_def and_then_def)
  with assms show ?thesis
    by (auto simp: field_text_def and_then_def or_else_def get_prop_own to_string_val_def)
qed

lemma product_block_text:
  assumes "product_block nts p = Inr b"
  shows "\<exists>t d pr c.
     b = ''\<newline>    Product: '' @ t @ ''\<newline>    Description: '' @ d @
         ''\<newline>    Price: '' @ pr @ ''\<newline>    Category: '' @ c @ ''\<newline>  '' \<and>
     (\<not> truthy (own_property p ''title'') \<longrightarrow> t = ''Unnamed Product'') \<and>
     (\<not> truthy (own_property p ''description'') \<longrightarrow> d = ''No description'') \<and>
     (\<not> truthy (own_property p ''price'') \<longrightarrow> pr = ''N/A'') \<and>
     (\<not> truthy (own_property p ''category'') \<longrightarrow> c = ''Uncategorized'') \<and>
     (truthy (own_property p ''title'') \<longrightarrow>
        to_string_val nts (own_property p ''title'') = Inr t) \<and>
     (truthy (own_property p ''description'') \<longrightarrow>
        to_string_val nts (own_property p ''description'') = Inr d) \<and>
     (truthy (own_property p ''price'') \<longrightarrow>
        to_string_val nts (own_property p ''price'') = Inr pr) \<and>
     (truthy (own_property p ''category'') \<longrightarrow>
        to_string_val nts (own_property p ''category'') = Inr c)"
proof -
  from product_block_fields [OF assms] obtain t d pr c where
    f: "field_text nts p ''title'' ''Unnamed Product'' = Inr t"
       "field_text nts p ''description'' ''No description'' = Inr d"
       "field_text nts p ''price'' ''N/A'' = Inr pr"
       "field_text nts p ''category'' ''Uncategorized'' = Inr c"
    and b: "b = block_template t d pr c" by auto
  have b': "b = ''\<newline>    Product: '' @ t @ ''\<newline>    Description: '' @ d @
         ''\<newline>    Price: '' @ pr @ ''\<newline>    Category: '' @ c @ ''\<newline>  ''"
    using b by (simp add: block_template_def)
  show ?thesis
    apply (rule exI [of _ t])
    apply (rule exI [of _ d])
    apply (rule exI [of _ pr])
    apply (rule exI [of _ c])
    using b' field_text_Inr [OF f(1)] field_text_Inr [OF f(2)]
      field_text_Inr [OF f(3)] field_text_Inr [OF f(4)]
    by (intro conjI) simp_all
qed

lemma context_blocks:
  assumes "buildProductContext nts products = Inr ctx"
  shows "\<exists>blocks. length blocks = length products \<and> ctx = blank_line_joined blocks \<and>
           (\<forall>i<length products. product_block nts (products ! i) = Inr (blocks ! i))"
proof -
  from assms obtain blocks where bs: "map_throwing (product_block nts) products = Inr blocks"
    and j: "ctx = join ''\<newline>\<newline>'' blocks"
    by (auto simp: buildProductContext_def and_then_def split: sum.splits)
  from map_throwing_Inr [OF bs] j show ?thesis
    by (intro exI [of _ blocks]) (simp add: join_blank_line)
qed

lemma prompt_text:
  assumes "constrainedPrompt nts (Some (JStr q)) products = Inr p"
  shows "\<exists>ctx. buildProductContext nts products = Inr ctx \<and>
     p = ''\<newline>      [Respond in under 40 words]\<newline>      User Query: '' @ q @
         ''\<newline>      \<newline>      Available Products:\<newline>      '' @ ctx @
         ''\<newline>      \<newline>      Response Requirements:\<newline>      - Concise bullet points\<newline>      - Max 200 tokens\<newline>      - Prioritize most relevant products\<newline>    ''"
  using assms
  by (auto simp: constrainedPrompt_def and_then_def to_string_val_def split: sum.splits)

lemma flat_products_prompt:
  assumes "\<forall>x\<in>set products. flat_product x"
  shows "\<exists>p. constrainedPrompt nts (Some (JStr q)) products = Inr p"
proof -
  from assms have "\<forall>x\<in>set products. \<exists>b. product_block nts x = Inr b"
    using flat_product_block by blast
  from map_throwing_total [OF this] obtain bs
    where "map_throwing (product_block nts) products = Inr bs" by blast
  then show ?thesis
    by (simp add: constrainedPrompt_def buildProductContext_def and_then_def to_string_val_def)
qed

lemma zero_price_prompt_built:
  "\<exists>p. constrainedPrompt integer_text (Some (JStr ''gifts'')) [JObj [(''price'', JNum 0)]] = Inr p"
  by (rule flat_products_prompt) (simp add: flat_field_def)

text \<open>
  The double product: two values, and the distance to the exact product. Rounding to 53
  bits moves a number by at most the \<open>2^53\<close>-th part of it.
\<close>

lemma times_133_15: "times_133 15 = 1403856446344397 / 70368744177664"
  by (simp add: times_133_def round_to_53_def mantissa_133_def bit_length.simps Let_def)

text \<open>The estimate for fifteen words is not the exact product 19.95.\<close>

lemma times_133_15_ne: "times_133 15 \<noteq> 15 * (133 / 100)"
  by (simp add: times_133_15)

lemma bit_length_lower: "0 < n \<Longrightarrow> 2 ^ (bit_length n - 1) \<le> n"
proof (induction n rule: bit_length.induct)
  case (1 n)
  show ?case
  proof (cases "n div 2 = 0")
    case True
    with 1(2) have "n = 1" by (cases n) auto
    then show ?thesis by (simp add: bit_length.simps)
  next
    case False
    then have pos: "0 < n div 2" by simp
    from 1(2) have n0: "n \<noteq> 0" by simp
    from 1(1) [OF n0 pos] have ih: "2 ^ (bit_length (n div 2) - 1) \<le> n div 2" .
    have bl: "bit_length n = Suc (bit_length (n div 2))"
      using n0 by (subst bit_length.simps) simp
    have "0 < bit_length (n div 2)"
      using pos by (subst bit_length.simps) simp
    then have "2 ^ (bit_length n - 1) = 2 * 2 ^ (bit_length (n div 2) - 1)"
      using bl by (cases "bit_length (n div 2)") simp_all
    also have "\<dots> \<le> 2 * (n div 2)" using ih by simp
    also have "\<dots> \<le> n" by simp
    finally show ?thesis .
  qed
qed

lemma round_to_53_error:
  "2 * \<bar>int (round_to_53 n) - int n\<bar> \<le> 2 ^ (bit_length n - 53) \<and>
   (bit_length n \<le> 53 \<longrightarrow> round_to_53 n = n)"
proof -
  define k where "k = bit_length n - 53"
  define q where "q = n div 2 ^ k"
  define r where "r = n mod 2 ^ k"
  have n: "n = q * 2 ^ k + r"
    using div_mult_mod_eq [of n "2 ^ k"] by (simp add: q_def r_def)
  have r: "r < 2 ^ k" by (simp add: r_def)
  have ri: "int r < 2 ^ k"
    using r by (metis of_nat_less_iff of_nat_numeral of_nat_power)
  have ni: "int n = int q * 2 ^ k + int r"
    by (subst n) simp
  have rt: "round_to_53 n =
      (if 0 < k \<and> (2 ^ k < 2 * r \<or> (2 * r = 2 ^ k \<and> odd q)) then (q + 1) * 2 ^ k else q * 2 ^ k)"
    by (simp add: round_to_53_def Let_def k_def q_def r_def)
  show ?thesis
  proof (cases "0 < k \<and> (2 ^ k < 2 * r \<or> (2 * r = 2 ^ k \<and> odd q))")
    case True
    then have up: "round_to_53 n = (q + 1) * 2 ^ k" using rt by simp
    have e: "int (round_to_53 n) - int n = 2 ^ k - int r"
      unfolding up ni by (simp add: algebra_simps)
    from True have "2 ^ k \<le> 2 * r" by auto
    then have "int (2 ^ k) \<le> int (2 * r)" by (simp only: of_nat_le_iff)
    then have "(2::int) ^ k \<le> 2 * int r" by simp
    with e ri have "2 * \<bar>int (round_to_53 n) - int n\<bar> \<le> 2 ^ k"
      by simp
    moreover from True have "\<not> bit_length n \<le> 53" by (simp add: k_def)
    ultimately show ?thesis by (simp add: k_def)
  next
    case False
    then have dn: "round_to_53 n = q * 2 ^ k" using rt by simp
    have d: "int (round_to_53 n) - int n = - int r"
      unfolding dn ni by simp
    show ?thesis
    proof (cases "0 < k")
      case True
      with False have "2 * r \<le> 2 ^ k" by auto
      then have "int (2 * r) \<le> int (2 ^ k)" by (simp only: of_nat_le_iff)
      then have "2 * int r \<le> (2::int) ^ k" by simp
      with d True show ?thesis by (simp add: k_def)
    next
      case False
      then have "k = 0" by simp
      then have "round_to_53 n = n" using dn by (simp add: q_def)
      then show ?thesis by simp
    qed
  qed
qed


lemma round_to_53_relative: "2 ^ 53 * \<bar>int (round_to_53 n) - int n\<bar> \<le> int n"
proof (cases "bit_length n \<le> 53")
  case True
  with round_to_53_error [of n] have "round_to_53 n = n" by simp
  then show ?thesis by simp
next
  case False
  then have big: "53 < bit_length n" by simp
  then have pos: "0 < n" by (cases "n = 0") (simp_all add: bit_length.simps)
  from bit_length_lower [OF pos] have "int (2 ^ (bit_length n - 1)) \<le> int n"
    by (simp only: of_nat_le_iff)
  then have low: "(2::int) ^ (bit_length n - 1) \<le> int n" by simp
  have "bit_length n - 1 = 52 + (bit_length n - 53)" using big by simp
  then have split: "(2::int) ^ (bit_length n - 1) = 2 ^ 52 * 2 ^ (bit_length n - 53)"
    by (simp only: power_add)
  from round_to_53_error [of n]
  have "2 * \<bar>int (round_to_53 n) - int n\<bar> \<le> 2 ^ (bit_length n - 53)" by simp
  then have "2 ^ 52 * (2 * \<bar>int (round_to_53 n) - int n\<bar>) \<le> 2 ^ 52 * 2 ^ (bit_length n - 53)"
    by (rule mult_left_mono) simp
  with split low show ?thesis by simp
qed

lemma times_133_close: "\<bar>times_133 n - of_nat n * (133 / 100)\<bar> \<le> of_nat n / 2 ^ 51"
proof -
  define N where "N = n * mantissa_133"
  define R where "R = round_to_53 N"
  have "2 ^ 53 * \<bar>int R - int N\<bar> \<le> int N"
    unfolding R_def by (rule round_to_53_relative)
  then have "rat_of_int (2 ^ 53 * \<bar>int R - int N\<bar>) \<le> rat_of_int (int N)"
    by (simp only: of_int_le_iff)
  then have r1: "2 ^ 53 * \<bar>rat_of_nat R - rat_of_nat N\<bar> \<le> rat_of_nat N"
    by simp
  have N: "rat_of_nat N = of_nat n * 748723438050345"
    by (simp add: N_def mantissa_133_def)
  have t: "times_133 n = rat_of_nat R / 2 ^ 49"
    by (simp add: times_133_def R_def N_def)
  have eq: "times_133 n - of_nat n * (133 / 100) =
      (rat_of_nat R - rat_of_nat N) / 2 ^ 49 + of_nat n * (748723438050345 / 2 ^ 49 - 133 / 100)"
    unfolding t N by (simp add: field_simps)
  have "\<bar>(rat_of_nat R - rat_of_nat N) / 2 ^ 49 +
         of_nat n * (748723438050345 / 2 ^ 49 - 133 / 100)\<bar> \<le>
      \<bar>(rat_of_nat R - rat_of_nat N) / 2 ^ 49\<bar> +
      \<bar>rat_of_nat n * (748723438050345 / 2 ^ 49 - 133 / 100)\<bar>"
    by (rule abs_triangle_ineq)
  also have "\<bar>(rat_of_nat R - rat_of_nat N) / 2 ^ 49\<bar> = \<bar>rat_of_nat R - rat_of_nat N\<bar> / 2 ^ 49"
    by (simp only: abs_divide) simp
  also have "\<bar>rat_of_nat n * (748723438050345 / 2 ^ 49 - 133 / 100)\<bar> =
      of_nat n * \<bar>748723438050345 / 2 ^ 49 - 133 / 100 :: rat\<bar>"
    by (simp only: abs_mult abs_of_nat)
  finally have "\<bar>times_133 n - of_nat n * (133 / 100)\<bar> \<le>
      \<bar>rat_of_nat R - rat_of_nat N\<bar> / 2 ^ 49 + of_nat n * \<bar>748723438050345 / 2 ^ 49 - 133 / 100 :: rat\<bar>"
    unfolding eq .
  also have "\<dots> \<le> rat_of_nat N / 2 ^ 53 / 2 ^ 49 + of_nat n * (1 / 2 ^ 53)"
  proof -
    from r1 have "\<bar>rat_of_nat R - rat_of_nat N\<bar> \<le> rat_of_nat N / 2 ^ 53"
      by (simp add: field_simps)
    then have "\<bar>rat_of_nat R - rat_of_nat N\<bar> / 2 ^ 49 \<le> rat_of_nat N / 2 ^ 53 / 2 ^ 49"
      by (simp add: divide_right_mono)
    moreover have "\<bar>748723438050345 / 2 ^ 49 - 133 / 100 :: rat\<bar> \<le> 1 / 2 ^ 53"
      by simp
    then have "rat_of_nat n * \<bar>748723438050345 / 2 ^ 49 - 133 / 100 :: rat\<bar> \<le> of_nat n * (1 / 2 ^ 53)"
      by (rule mult_left_mono) simp
    ultimately show ?thesis by (rule add_mono)
  qed
  also have "\<dots> \<le> of_nat n / 2 ^ 51"
    unfolding N by (simp add: field_simps)
  finally show ?thesis .
qed

section \<open>C4: a failed fetch fails the call and keeps the cache\<close>



section \<open>C5: a field whose value is falsy\<close>

text \<open>
  C5, as the specification states it: a product with the price 0 renders its price as
  0 and not as the placeholder. The code renders the placeholder: for the one product
  \<^verbatim>\<open>{"title": "Gift", "price": 0}\<close> the catalog text, and the prompt built for the
  query "gifts", have the line \<^verbatim>\<open>Price: N/A\<close>.
\<close>

theorem zero_price_renders_placeholder:
  "buildProductContext integer_text [JObj [(''title'', JStr ''Gift''), (''price'', JNum 0)]] =
     Inr ''\<newline>    Product: Gift\<newline>    Description: No description\<newline>    Price: N/A\<newline>    Category: Uncategorized\<newline>  '' \<and>
   constrainedPrompt integer_text (Some (JStr ''gifts''))
       [JObj [(''title'', JStr ''Gift''), (''price'', JNum 0)]] =
     Inr ''\<newline>      [Respond in under 40 words]\<newline>      User Query: gifts\<newline>      \<newline>      Available Products:\<newline>      \<newline>    Product: Gift\<newline>    Description: No description\<newline>    Price: N/A\<newline>    Category: Uncategorized\<newline>  \<newline>      \<newline>      Response Requirements:\<newline>      - Concise bullet points\<newline>      - Max 200 tokens\<newline>      - Prioritize most relevant products\<newline>    ''"
  by (simp add: constrainedPrompt_def buildProductContext_def product_block_def field_text_def
      and_then_def or_else_def to_string_val_def join_def block_template_def)

text \<open>
  C5, amended: in the built prompt, a product missing its title renders as
  "Unnamed Product", and a product with the price 0 renders its price as "N/A": a field
  whose value is falsy (absent, \<^verbatim>\<open>null\<close>, \<^verbatim>\<open>false\<close>, 0 or the empty string) is
  replaced by its placeholder. The prompt is the fixed template around the query and
  the blocks of the products; the block of each product is the four labelled lines, and
  the text after a label is the placeholder whenever the field is falsy.
\<close>

theorem falsy_field_renders_placeholder:
  assumes "constrainedPrompt nts (Some (JStr q)) products = Inr p"
  shows "\<exists>blocks. length blocks = length products \<and>
     p = ''\<newline>      [Respond in under 40 words]\<newline>      User Query: '' @ q @
         ''\<newline>      \<newline>      Available Products:\<newline>      '' @
         blank_line_joined blocks @
         ''\<newline>      \<newline>      Response Requirements:\<newline>      - Concise bullet points\<newline>      - Max 200 tokens\<newline>      - Prioritize most relevant products\<newline>    '' \<and>
     (\<forall>i<length products. \<exists>t d pr c.
        blocks ! i =
          ''\<newline>    Product: '' @ t @ ''\<newline>    Description: '' @ d @
          ''\<newline>    Price: '' @ pr @ ''\<newline>    Category: '' @ c @ ''\<newline>  '' \<and>
        (\<not> truthy (own_property (products ! i) ''title'') \<longrightarrow> t = ''Unnamed Product'') \<and>
        (\<not> truthy (own_property (products ! i) ''description'') \<longrightarrow> d = ''No description'') \<and>
        (\<not> truthy (own_property (products ! i) ''price'') \<longrightarrow> pr = ''N/A'') \<and>
        (\<not> truthy (own_property (products ! i) ''category'') \<longrightarrow> c = ''Uncategorized'') \<and>
        (own_property (products ! i) ''title'' = None \<longrightarrow> t = ''Unnamed Product'') \<and>
        (own_property (products ! i) ''price'' = Some (JNum 0) \<longrightarrow> pr = ''N/A''))"
proof -
  from prompt_text [OF assms] obtain ctx where ctx: "buildProductContext nts products = Inr ctx"
    and p: "p = ''\<newline>      [Respond in under 40 words]\<newline>      User Query: '' @ q @
         ''\<newline>      \<newline>      Available Products:\<newline>      '' @ ctx @
         ''\<newline>      \<newline>      Response Requirements:\<newline>      - Concise bullet points\<newline>      - Max 200 tokens\<newline>      - Prioritize most relevant products\<newline>    ''"
    by auto
  from context_blocks [OF ctx] obtain blocks where len: "length blocks = length products"
    and j: "ctx = blank_line_joined blocks"
    and nth: "\<forall>i<length products. product_block nts (products ! i) = Inr (blocks ! i)"
    by auto
  have each: "\<exists>t d pr c.
        blocks ! i =
          ''\<newline>    Product: '' @ t @ ''\<newline>    Description: '' @ d @
          ''\<newline>    Price: '' @ pr @ ''\<newline>    Category: '' @ c @ ''\<newline>  '' \<and>
        (\<not> truthy (own_property (products ! i) ''title'') \<longrightarrow> t = ''Unnamed Product'') \<and>
        (\<not> truthy (own_property (products ! i) ''description'') \<longrightarrow> d = ''No description'') \<and>
        (\<not> truthy (own_property (products ! i) ''price'') \<longrightarrow> pr = ''N/A'') \<and>
        (\<not> truthy (own_property (products ! i) ''category'') \<longrightarrow> c = ''Uncategorized'') \<and>
        (own_property (products ! i) ''title'' = None \<longrightarrow> t = ''Unnamed Product'') \<and>
        (own_property (products ! i) ''price'' = Some (JNum 0) \<longrightarrow> pr = ''N/A'')"
    if i: "i < length products" for i
  proof -
    from nth i have "product_block nts (products ! i) = Inr (blocks ! i)" by simp
    from product_block_text [OF this] obtain t d pr c where
      b: "blocks ! i =
          ''\<newline>    Product: '' @ t @ ''\<newline>    Description: '' @ d @
          ''\<newline>    Price: '' @ pr @ ''\<newline>    Category: '' @ c @ ''\<newline>  ''"
      and f: "\<not> truthy (own_property (products ! i) ''title'') \<longrightarrow> t = ''Unnamed Product''"
        "\<not> truthy (own_property (products ! i) ''description'') \<longrightarrow> d = ''No description''"
        "\<not> truthy (own_property (products ! i) ''price'') \<longrightarrow> pr = ''N/A''"
        "\<not> truthy (own_property (products ! i) ''category'') \<longrightarrow> c = ''Uncategorized''"
      by auto
    have g: "own_property (products ! i) ''title'' = None \<longrightarrow> t = ''Unnamed Product''"
      using f(1) by auto
    have h: "own_property (products ! i) ''price'' = Some (JNum 0) \<longrightarrow> pr = ''N/A''"
      using f(3) by auto
    show ?thesis
      apply (rule exI [of _ t])
      apply (rule exI [of _ d])
      apply (rule exI [of _ pr])
      apply (rule exI [of _ c])
      using b f g h by (intro conjI)
  qed
  show ?thesis
    apply (rule exI [of _ blocks])
    using len p j each by (intro conjI) simp_all
qed

text \<open>
  The prompt for the query "gifts" and the one product \<^verbatim>\<open>{"price": 0}\<close>, in full.
\<close>

theorem falsy_field_renders_placeholder_witness:
  "constrainedPrompt integer_text (Some (JStr ''gifts'')) [JObj [(''price'', JNum 0)]] =
     Inr ''\<newline>      [Respond in under 40 words]\<newline>      User Query: gifts\<newline>      \<newline>      Available Products:\<newline>      \<newline>    Product: Unnamed Product\<newline>    Description: No description\<newline>    Price: N/A\<newline>    Category: Uncategorized\<newline>  \<newline>      \<newline>      Response Requirements:\<newline>      - Concise bullet points\<newline>      - Max 200 tokens\<newline>      - Prioritize most relevant products\<newline>    ''"
proof -
  let ?ps = "[JObj [(''price'', JNum 0)]]"
  from zero_price_prompt_built obtain p
    where p: "constrainedPrompt integer_text (Some (JStr ''gifts'')) ?ps = Inr p" ..
  from falsy_field_renders_placeholder [OF p] obtain blocks where len: "length blocks = length ?ps"
    and shape: "p = ''\<newline>      [Respond in under 40 words]\<newline>      User Query: '' @ ''gifts'' @
         ''\<newline>      \<newline>      Available Products:\<newline>      '' @
         blank_line_joined blocks @
         ''\<newline>      \<newline>      Response Requirements:\<newline>      - Concise bullet points\<newline>      - Max 200 tokens\<newline>      - Prioritize most relevant products\<newline>    ''"
    and each: "\<forall>i<length ?ps. \<exists>t d pr c.
        blocks ! i =
          ''\<newline>    Product: '' @ t @ ''\<newline>    Description: '' @ d @
          ''\<newline>    Price: '' @ pr @ ''\<newline>    Category: '' @ c @ ''\<newline>  '' \<and>
        (\<not> truthy (own_property (?ps ! i) ''title'') \<longrightarrow> t = ''Unnamed Product'') \<and>
        (\<not> truthy (own_property (?ps ! i) ''description'') \<longrightarrow> d = ''No description'') \<and>
        (\<not> truthy (own_property (?ps ! i) ''price'') \<longrightarrow> pr = ''N/A'') \<and>
        (\<not> truthy (own_property (?ps ! i) ''category'') \<longrightarrow> c = ''Uncategorized'') \<and>
        (own_property (?ps ! i) ''title'' = None \<longrightarrow> t = ''Unnamed Product'') \<and>
        (own_property (?ps ! i) ''price'' = Some (JNum 0) \<longrightarrow> pr = ''N/A'')"
    by auto
  have "(0::nat) < length ?ps" by simp
  with each obtain t d pr c where
    b: "blocks ! 0 =
          ''\<newline>    Product: '' @ t @ ''\<newline>    Description: '' @ d @
          ''\<newline>    Price: '' @ pr @ ''\<newline>    Category: '' @ c @ ''\<newline>  ''"
    and "\<not> truthy (own_property (?ps ! 0) ''title'') \<longrightarrow> t = ''Unnamed Product''"
    and "\<not> truthy (own_property (?ps ! 0) ''description'') \<longrightarrow> d = ''No description''"
    and "\<not> truthy (own_property (?ps ! 0) ''price'') \<longrightarrow> pr = ''N/A''"
    and "\<not> truthy (own_property (?ps ! 0) ''category'') \<longrightarrow> c = ''Uncategorized''"
    by auto
  then have v: "t = ''Unnamed Product''" "d = ''No description''" "pr = ''N/A''"
    "c = ''Uncategorized''"
    by simp_all
  from len obtain b0 where bl: "blocks = [b0]"
    by (cases blocks) auto
  with b v have "blank_line_joined blocks =
      ''\<newline>    Product: Unnamed Product\<newline>    Description: No description\<newline>    Price: N/A\<newline>    Category: Uncategorized\<newline>  ''"
    by simp
  with shape p show ?thesis by simp
qed

section \<open>C6: the prompt for an empty catalog\<close>

text \<open>
  C6, as the specification states it: building the prompt for "laptops" and the empty
  list always succeeds, because the construction of a prompt is total and has no way to
  fail, and the prompt contains a literal phrase that enumerates zero products. The
  construction is not total: for "laptops" and the list of the one product
  \<^verbatim>\<open>null\<close> the read of \<^verbatim>\<open>p.title\<close> throws a TypeError. The prompt for the empty
  list contains no phrase about the number of products: after the heading
  \<^verbatim>\<open>Available Products:\<close> there is only white space.
\<close>

theorem prompt_construction_can_throw:
  "constrainedPrompt integer_text (Some (JStr ''laptops'')) [JNull] = Inl (null_read ''title'') \<and>
   constrainedPrompt integer_text (Some (JStr ''laptops'')) [] =
     Inr ''\<newline>      [Respond in under 40 words]\<newline>      User Query: laptops\<newline>      \<newline>      Available Products:\<newline>      \<newline>      \<newline>      Response Requirements:\<newline>      - Concise bullet points\<newline>      - Max 200 tokens\<newline>      - Prioritize most relevant products\<newline>    '' \<and>
   \<not> contains_text ''\<newline>      [Respond in under 40 words]\<newline>      User Query: laptops\<newline>      \<newline>      Available Products:\<newline>      \<newline>      \<newline>      Response Requirements:\<newline>      - Concise bullet points\<newline>      - Max 200 tokens\<newline>      - Prioritize most relevant products\<newline>    '' ''0 products'' \<and>
   \<not> contains_text ''\<newline>      [Respond in under 40 words]\<newline>      User Query: laptops\<newline>      \<newline>      Available Products:\<newline>      \<newline>      \<newline>      Response Requirements:\<newline>      - Concise bullet points\<newline>      - Max 200 tokens\<newline>      - Prioritize most relevant products\<newline>    '' ''zero'' \<and>
   \<not> contains_text ''\<newline>      [Respond in under 40 words]\<newline>      User Query: laptops\<newline>      \<newline>      Available Products:\<newline>      \<newline>      \<newline>      Response Requirements:\<newline>      - Concise bullet points\<newline>      - Max 200 tokens\<newline>      - Prioritize most relevant products\<newline>    '' ''no products''"
proof -
  have 1: "constrainedPrompt integer_text (Some (JStr ''laptops'')) [JNull] =
      Inl (null_read ''title'')"
    by (simp add: constrainedPrompt_def buildProductContext_def product_block_def field_text_def
        and_then_def to_string_val_def)
  have 2: "constrainedPrompt integer_text (Some (JStr ''laptops'')) [] =
     Inr ''\<newline>      [Respond in under 40 words]\<newline>      User Query: laptops\<newline>      \<newline>      Available Products:\<newline>      \<newline>      \<newline>      Response Requirements:\<newline>      - Concise bullet points\<newline>      - Max 200 tokens\<newline>      - Prioritize most relevant products\<newline>    ''"
    by (rule laptops_prompt)
  have 3: "\<not> contains_text ''\<newline>      [Respond in under 40 words]\<newline>      User Query: laptops\<newline>      \<newline>      Available Products:\<newline>      \<newline>      \<newline>      Response Requirements:\<newline>      - Concise bullet points\<newline>      - Max 200 tokens\<newline>      - Prioritize most relevant products\<newline>    '' ''0 products''"
    by simp
  have 4: "\<not> contains_text ''\<newline>      [Respond in under 40 words]\<newline>      User Query: laptops\<newline>      \<newline>      Available Products:\<newline>      \<newline>      \<newline>      Response Requirements:\<newline>      - Concise bullet points\<newline>      - Max 200 tokens\<newline>      - Prioritize most relevant products\<newline>    '' ''zero''"
    by simp
  have 5: "\<not> contains_text ''\<newline>      [Respond in under 40 words]\<newline>      User Query: laptops\<newline>      \<newline>      Available Products:\<newline>      \<newline>      \<newline>      Response Requirements:\<newline>      - Concise bullet points\<newline>      - Max 200 tokens\<newline>      - Prioritize most relevant products\<newline>    '' ''no products''"
    by simp
  from 1 2 3 4 5 show ?thesis by (intro conjI)
qed

text \<open>
  C6, amended: building the prompt for the query "laptops", and for every other string,
  with the empty list of products succeeds. The prompt is the fixed template around the
  query with an empty catalog text: the heading \<^verbatim>\<open>Available Products:\<close> is followed
  by white space only up to \<^verbatim>\<open>Response Requirements:\<close>, and there is no phrase that
  enumerates zero products. The fixed template is there: the word limit, the bullet
  points, the token limit and the query. The construction of a prompt succeeds for
  every list of records with primitive fields, and throws a TypeError for every list
  whose first product is \<^verbatim>\<open>null\<close>.
\<close>

theorem empty_catalog_prompt:
  "constrainedPrompt nts (Some (JStr q)) [] =
     Inr (''\<newline>      [Respond in under 40 words]\<newline>      User Query: '' @ q @
          ''\<newline>      \<newline>      Available Products:\<newline>      \<newline>      \<newline>      Response Requirements:\<newline>      - Concise bullet points\<newline>      - Max 200 tokens\<newline>      - Prioritize most relevant products\<newline>    '') \<and>
   (\<exists>p. constrainedPrompt nts (Some (JStr ''laptops'')) [] = Inr p \<and>
       buildProductContext nts [] = Inr [] \<and>
       contains_text p ''Available Products:\<newline>      \<newline>      \<newline>      Response Requirements:'' \<and>
       \<not> contains_text p ''Product: '' \<and>
       contains_text p ''[Respond in under 40 words]'' \<and>
       contains_text p ''- Concise bullet points'' \<and>
       contains_text p ''- Max 200 tokens'' \<and>
       contains_text p ''User Query: laptops'') \<and>
   ((\<forall>x\<in>set products. flat_product x) \<longrightarrow>
      (\<exists>p. constrainedPrompt nts (Some (JStr q)) products = Inr p)) \<and>
   constrainedPrompt nts (Some (JStr q)) (JNull # products) = Inl (null_read ''title'')"
proof (intro conjI impI)
  show "constrainedPrompt nts (Some (JStr q)) [] =
     Inr (''\<newline>      [Respond in under 40 words]\<newline>      User Query: '' @ q @
          ''\<newline>      \<newline>      Available Products:\<newline>      \<newline>      \<newline>      Response Requirements:\<newline>      - Concise bullet points\<newline>      - Max 200 tokens\<newline>      - Prioritize most relevant products\<newline>    '')"
    by (simp add: constrainedPrompt_def empty_context and_then_def to_string_val_def)
  show "\<exists>p. constrainedPrompt nts (Some (JStr ''laptops'')) [] = Inr p \<and>
       buildProductContext nts [] = Inr [] \<and>
       contains_text p ''Available Products:\<newline>      \<newline>      \<newline>      Response Requirements:'' \<and>
       \<not> contains_text p ''Product: '' \<and>
       contains_text p ''[Respond in under 40 words]'' \<and>
       contains_text p ''- Concise bullet points'' \<and>
       contains_text p ''- Max 200 tokens'' \<and>
       contains_text p ''User Query: laptops''"
    by (simp add: laptops_prompt empty_context)
  show "constrainedPrompt nts (Some (JStr q)) (JNull # products) = Inl (null_read ''title'')"
    by (simp add: constrainedPrompt_def buildProductContext_def product_block_def field_text_def
        and_then_def to_string_val_def)
  assume "\<forall>x\<in>set products. flat_product x"
  then show "\<exists>p. constrainedPrompt nts (Some (JStr q)) products = Inr p"
    by (rule flat_products_prompt)
qed

text \<open>The prompt for "laptops" and no product, and a catalog of two records.\<close>

theorem empty_catalog_prompt_witness:
  "constrainedPrompt integer_text (Some (JStr ''laptops'')) [] =
     Inr ''\<newline>      [Respond in under 40 words]\<newline>      User Query: laptops\<newline>      \<newline>      Available Products:\<newline>      \<newline>      \<newline>      Response Requirements:\<newline>      - Concise bullet points\<newline>      - Max 200 tokens\<newline>      - Prioritize most relevant products\<newline>    '' \<and>
   (\<exists>p. constrainedPrompt integer_text (Some (JStr ''laptops'')) [sneaker, JObj []] = Inr p)"
proof -
  note t = empty_catalog_prompt [of integer_text "''laptops''" "[sneaker, JObj []]"]
  have "\<forall>x\<in>set [sneaker, JObj []]. flat_product x"
    by (simp add: sneaker_def flat_field_def)
  with t [THEN conjunct2, THEN conjunct2, THEN conjunct1]
  have 2: "\<exists>p. constrainedPrompt integer_text (Some (JStr ''laptops'')) [sneaker, JObj []] = Inr p"
    by (rule mp)
  from t [THEN conjunct1] have 1: "constrainedPrompt integer_text (Some (JStr ''laptops'')) [] =
     Inr ''\<newline>      [Respond in under 40 words]\<newline>      User Query: laptops\<newline>      \<newline>      Available Products:\<newline>      \<newline>      \<newline>      Response Requirements:\<newline>      - Concise bullet points\<newline>      - Max 200 tokens\<newline>      - Prioritize most relevant products\<newline>    ''"
    by simp
  from 1 2 show ?thesis by (intro conjI)
qed

section \<open>C7: the catalog text\<close>

text \<open>
  C7: for every list of products, the catalog text is built whenever every product is a
  record with primitive fields. The prompt, whenever it is built, is the fixed template
  with the query and this catalog text in their places. The catalog text, whenever it
  is built, is the blocks of the products joined by a blank line: as many blocks as
  products, the block at each position being the four labelled lines of the product at
  that position (so nothing is sorted and nothing is dropped). In a block, each field
  that is absent stands as its placeholder "Unnamed Product", "No description", "N/A"
  or "Uncategorized", and each field whose value is truthy stands as the text of that
  value.
\<close>

theorem catalog_text_blocks_in_order:
  "((\<forall>x\<in>set products. flat_product x) \<longrightarrow>
      (\<exists>ctx. buildProductContext nts products = Inr ctx)) \<and>
   (\<forall>p. constrainedPrompt nts (Some (JStr q)) products = Inr p \<longrightarrow>
      (\<exists>ctx. buildProductContext nts products = Inr ctx \<and>
         p = ''\<newline>      [Respond in under 40 words]\<newline>      User Query: '' @ q @
             ''\<newline>      \<newline>      Available Products:\<newline>      '' @ ctx @
             ''\<newline>      \<newline>      Response Requirements:\<newline>      - Concise bullet points\<newline>      - Max 200 tokens\<newline>      - Prioritize most relevant products\<newline>    '')) \<and>
   (\<forall>ctx. buildProductContext nts products = Inr ctx \<longrightarrow>
      (\<exists>blocks. length blocks = length products \<and> ctx = blank_line_joined blocks \<and>
         (\<forall>i<length products. \<exists>t d pr c.
             blocks ! i =
               ''\<newline>    Product: '' @ t @ ''\<newline>    Description: '' @ d @
               ''\<newline>    Price: '' @ pr @ ''\<newline>    Category: '' @ c @ ''\<newline>  '' \<and>
             (own_property (products ! i) ''title'' = None \<longrightarrow> t = ''Unnamed Product'') \<and>
             (own_property (products ! i) ''description'' = None \<longrightarrow> d = ''No description'') \<and>
             (own_property (products ! i) ''price'' = None \<longrightarrow> pr = ''N/A'') \<and>
             (own_property (products ! i) ''category'' = None \<longrightarrow> c = ''Uncategorized'') \<and>
             (truthy (own_property (products ! i) ''title'') \<longrightarrow>
                to_string_val nts (own_property (products ! i) ''title'') = Inr t) \<and>
             (truthy (own_property (products ! i) ''description'') \<longrightarrow>
                to_string_val nts (own_property (products ! i) ''description'') = Inr d) \<and>
             (truthy (own_property (products ! i) ''price'') \<longrightarrow>
                to_string_val nts (own_property (products ! i) ''price'') = Inr pr) \<and>
             (truthy (own_property (products ! i) ''category'') \<longrightarrow>
                to_string_val nts (own_property (products ! i) ''category'') = Inr c))))"
proof (intro conjI allI impI)
  assume "\<forall>x\<in>set products. flat_product x"
  then have "\<forall>x\<in>set products. \<exists>b. product_block nts x = Inr b"
    using flat_product_block by blast
  from map_throwing_total [OF this] obtain bs
    where "map_throwing (product_block nts) products = Inr bs" by blast
  then show "\<exists>ctx. buildProductContext nts products = Inr ctx"
    by (simp add: buildProductContext_def and_then_def)
next
  fix p
  assume "constrainedPrompt nts (Some (JStr q)) products = Inr p"
  then show "\<exists>ctx. buildProductContext nts products = Inr ctx \<and>
         p = ''\<newline>      [Respond in under 40 words]\<newline>      User Query: '' @ q @
             ''\<newline>      \<newline>      Available Products:\<newline>      '' @ ctx @
             ''\<newline>      \<newline>      Response Requirements:\<newline>      - Concise bullet points\<newline>      - Max 200 tokens\<newline>      - Prioritize most relevant products\<newline>    ''"
    by (rule prompt_text)
next
  fix ctx
  assume "buildProductContext nts products = Inr ctx"
  from context_blocks [OF this] obtain blocks where len: "length blocks = length products"
    and j: "ctx = blank_line_joined blocks"
    and nth: "\<forall>i<length products. product_block nts (products ! i) = Inr (blocks ! i)"
    by auto
  have each: "\<exists>t d pr c.
             blocks ! i =
               ''\<newline>    Product: '' @ t @ ''\<newline>    Description: '' @ d @
               ''\<newline>    Price: '' @ pr @ ''\<newline>    Category: '' @ c @ ''\<newline>  '' \<and>
             (own_property (products ! i) ''title'' = None \<longrightarrow> t = ''Unnamed Product'') \<and>
             (own_property (products ! i) ''description'' = None \<longrightarrow> d = ''No description'') \<and>
             (own_property (products ! i) ''price'' = None \<longrightarrow> pr = ''N/A'') \<and>
             (own_property (products ! i) ''category'' = None \<longrightarrow> c = ''Uncategorized'') \<and>
             (truthy (own_property (products ! i) ''title'') \<longrightarrow>
                to_string_val nts (own_property (products ! i) ''title'') = Inr t) \<and>
             (truthy (own_property (products ! i) ''description'') \<longrightarrow>
                to_string_val nts (own_property (products ! i) ''description'') = Inr d) \<and>
             (truthy (own_property (products ! i) ''price'') \<longrightarrow>
                to_string_val nts (own_property (products ! i) ''price'') = Inr pr) \<and>
             (truthy (own_property (products ! i) ''category'') \<longrightarrow>
                to_string_val nts (own_property (products ! i) ''category'') = Inr c)"
    if i: "i < length products" for i
  proof -
    from nth i have "product_block nts (products ! i) = Inr (blocks ! i)" by simp
    from product_block_text [OF this] obtain t d pr c where
      b: "blocks ! i =
               ''\<newline>    Product: '' @ t @ ''\<newline>    Description: '' @ d @
               ''\<newline>    Price: '' @ pr @ ''\<newline>    Category: '' @ c @ ''\<newline>  ''"
      and f: "\<not> truthy (own_property (products ! i) ''title'') \<longrightarrow> t = ''Unnamed Product''"
        "\<not> truthy (own_property (products ! i) ''description'') \<longrightarrow> d = ''No description''"
        "\<not> truthy (own_property (products ! i) ''price'') \<longrightarrow> pr = ''N/A''"
        "\<not> truthy (own_property (products ! i) ''category'') \<longrightarrow> c = ''Uncategorized''"
      and g: "truthy (own_property (products ! i) ''title'') \<longrightarrow>
                to_string_val nts (own_property (products ! i) ''title'') = Inr t"
        "truthy (own_property (products ! i) ''description'') \<longrightarrow>
                to_string_val nts (own_property (products ! i) ''description'') = Inr d"
        "truthy (own_property (products ! i) ''price'') \<longrightarrow>
                to_string_val nts (own_property (products ! i) ''price'') = Inr pr"
        "truthy (own_property (products ! i) ''category'') \<longrightarrow>
                to_string_val nts (own_property (products ! i) ''category'') = Inr c"
      by auto
    have a: "own_property (products ! i) ''title'' = None \<longrightarrow> t = ''Unnamed Product''"
      "own_property (products ! i) ''description'' = None \<longrightarrow> d = ''No description''"
      "own_property (products ! i) ''price'' = None \<longrightarrow> pr = ''N/A''"
      "own_property (products ! i) ''category'' = None \<longrightarrow> c = ''Uncategorized''"
      using f by auto
    show ?thesis
      apply (rule exI [of _ t])
      apply (rule exI [of _ d])
      apply (rule exI [of _ pr])
      apply (rule exI [of _ c])
      using b a g by (intro conjI)
  qed
  show "\<exists>blocks. length blocks = length products \<and> ctx = blank_line_joined blocks \<and>
         (\<forall>i<length products. \<exists>t d pr c.
             blocks ! i =
               ''\<newline>    Product: '' @ t @ ''\<newline>    Description: '' @ d @
               ''\<newline>    Price: '' @ pr @ ''\<newline>    Category: '' @ c @ ''\<newline>  '' \<and>
             (own_property (products ! i) ''title'' = None \<longrightarrow> t = ''Unnamed Product'') \<and>
             (own_property (products ! i) ''description'' = None \<longrightarrow> d = ''No description'') \<and>
             (own_property (products ! i) ''price'' = None \<longrightarrow> pr = ''N/A'') \<and>
             (own_property (products ! i) ''category'' = None \<longrightarrow> c = ''Uncategorized'') \<and>
             (truthy (own_property (products ! i) ''title'') \<longrightarrow>
                to_string_val nts (own_property (products ! i) ''title'') = Inr t) \<and>
             (truthy (own_property (products ! i) ''description'') \<longrightarrow>
                to_string_val nts (own_property (products ! i) ''description'') = Inr d) \<and>
             (truthy (own_property (products ! i) ''price'') \<longrightarrow>
                to_string_val nts (own_property (products ! i) ''price'') = Inr pr) \<and>
             (truthy (own_property (products ! i) ''category'') \<longrightarrow>
                to_string_val nts (own_property (products ! i) ''category'') = Inr c))"
    apply (rule exI [of _ blocks])
    using len j each by (intro conjI) simp_all
qed

text \<open>
  Three products, the first and the last the same, the second with no field at all:
  the catalog text and the prompt, in full.
\<close>

theorem catalog_text_blocks_in_order_witness:
  "buildProductContext integer_text [sneaker, JObj [], sneaker] =
     Inr ''\<newline>    Product: Sneaker\<newline>    Description: No description\<newline>    Price: 20\<newline>    Category: Uncategorized\<newline>  \<newline>\<newline>\<newline>    Product: Unnamed Product\<newline>    Description: No description\<newline>    Price: N/A\<newline>    Category: Uncategorized\<newline>  \<newline>\<newline>\<newline>    Product: Sneaker\<newline>    Description: No description\<newline>    Price: 20\<newline>    Category: Uncategorized\<newline>  '' \<and>
   constrainedPrompt integer_text (Some (JStr ''Show me cheap shoes'')) [sneaker, JObj [], sneaker] =
     Inr ''\<newline>      [Respond in under 40 words]\<newline>      User Query: Show me cheap shoes\<newline>      \<newline>      Available Products:\<newline>      \<newline>    Product: Sneaker\<newline>    Description: No description\<newline>    Price: 20\<newline>    Category: Uncategorized\<newline>  \<newline>\<newline>\<newline>    Product: Unnamed Product\<newline>    Description: No description\<newline>    Price: N/A\<newline>    Category: Uncategorized\<newline>  \<newline>\<newline>\<newline>    Product: Sneaker\<newline>    Description: No description\<newline>    Price: 20\<newline>    Category: Uncategorized\<newline>  \<newline>      \<newline>      Response Requirements:\<newline>      - Concise bullet points\<newline>      - Max 200 tokens\<newline>      - Prioritize most relevant products\<newline>    ''"
proof -
  let ?ps = "[sneaker, JObj [], sneaker]"
  note t = catalog_text_blocks_in_order [of ?ps integer_text "''Show me cheap shoes''"]
  have flat: "\<forall>x\<in>set ?ps. flat_product x"
    by (simp add: sneaker_def flat_field_def)
  with t [THEN conjunct1] obtain ctx where ctx: "buildProductContext integer_text ?ps = Inr ctx"
    by blast
  have "buildProductContext integer_text ?ps =
     Inr ''\<newline>    Product: Sneaker\<newline>    Description: No description\<newline>    Price: 20\<newline>    Category: Uncategorized\<newline>  \<newline>\<newline>\<newline>    Product: Unnamed Product\<newline>    Description: No description\<newline>    Price: N/A\<newline>    Category: Uncategorized\<newline>  \<newline>\<newline>\<newline>    Product: Sneaker\<newline>    Description: No description\<newline>    Price: 20\<newline>    Category: Uncategorized\<newline>  ''"
    by (simp add: buildProductContext_def product_block_def field_text_def and_then_def
        or_else_def to_string_val_def join_def block_template_def sneaker_def integer_text_def
        decimal.simps)
  with ctx have 1: "ctx = ''\<newline>    Product: Sneaker\<newline>    Description: No description\<newline>    Price: 20\<newline>    Category: Uncategorized\<newline>  \<newline>\<newline>\<newline>    Product: Unnamed Product\<newline>    Description: No description\<newline>    Price: N/A\<newline>    Category: Uncategorized\<newline>  \<newline>\<newline>\<newline>    Product: Sneaker\<newline>    Description: No description\<newline>    Price: 20\<newline>    Category: Uncategorized\<newline>  ''"
    by simp
  from flat_products_prompt [OF flat] obtain p
    where p: "constrainedPrompt integer_text (Some (JStr ''Show me cheap shoes'')) ?ps = Inr p"
    by blast
  with t [THEN conjunct2, THEN conjunct1] obtain ctx'
    where c': "buildProductContext integer_text ?ps = Inr ctx'"
      and shape: "p = ''\<newline>      [Respond in under 40 words]\<newline>      User Query: '' @ ''Show me cheap shoes'' @
             ''\<newline>      \<newline>      Available Products:\<newline>      '' @ ctx' @
             ''\<newline>      \<newline>      Response Requirements:\<newline>      - Concise bullet points\<newline>      - Max 200 tokens\<newline>      - Prioritize most relevant products\<newline>    ''"
    by blast
  from c' ctx have "ctx' = ctx" by simp
  with shape 1 p ctx show ?thesis by simp
qed

section \<open>C8: the replies of the chat endpoint\<close>

text \<open>
  C8: for the chat endpoint, a request body whose \<^verbatim>\<open>prompt\<close> is missing, is not a
  string, or is empty after trimming gets the status 400. When the cache, the prompt
  and the generation engine all succeed, the reply is the status 200 with the generated
  text, the token estimate and the number of products. The token estimate is the word
  count times 1.33 as the program computes it: the word count is the number of pieces
  of the text between single spaces, one more than the number of spaces, and the
  product is the product of doubles, which lies within \<open>n / 2^51\<close> of the exact
  product for the count \<open>n\<close>. When \<open>getProducts\<close>, the construction of the prompt,
  the generation engine or the read of the body fails, the reply is the status 500
  with the message of the error.
\<close>

theorem chat_replies:
  "(\<forall>v p. req_body = Some v \<and> get_prop v ''prompt'' = Inr p \<and>
       (p = None \<or> typeof p \<noteq> ''string'' \<or> (\<exists>str. p = Some (JStr str) \<and> trim str = []))
     \<longrightarrow> fst (chat nts env s req_body) =
           Reply 400 (ErrorJson ''Prompt is required and must be a non-empty string.'')) \<and>
   (\<forall>v str products s' q answer.
       req_body = Some v \<and> get_prop v ''prompt'' = Inr (Some (JStr str)) \<and> trim str \<noteq> [] \<and>
       getProducts nts (net env) s = (Inr products, s') \<and>
       constrainedPrompt nts (Some (JStr str)) products = Inr q \<and>
       generate env q = Inr answer
     \<longrightarrow> chat nts env s req_body =
           (Reply 200
              (ChatJson answer
                 (times_133 (length (split_on CHR '' '' answer)))
                 (length products)),
            s')) \<and>
   (\<forall>v str e s'.
       req_body = Some v \<and> get_prop v ''prompt'' = Inr (Some (JStr str)) \<and> trim str \<noteq> [] \<and>
       getProducts nts (net env) s = (Inl e, s')
     \<longrightarrow> chat nts env s req_body = (Reply 500 (ErrorJson (message e)), s')) \<and>
   (\<forall>v str products s' e.
       req_body = Some v \<and> get_prop v ''prompt'' = Inr (Some (JStr str)) \<and> trim str \<noteq> [] \<and>
       getProducts nts (net env) s = (Inr products, s') \<and>
       constrainedPrompt nts (Some (JStr str)) products = Inl e
     \<longrightarrow> chat nts env s req_body = (Reply 500 (ErrorJson (message e)), s')) \<and>
   (\<forall>v str products s' q e.
       req_body = Some v \<and> get_prop v ''prompt'' = Inr (Some (JStr str)) \<and> trim str \<noteq> [] \<and>
       getProducts nts (net env) s = (Inr products, s') \<and>
       constrainedPrompt nts (Some (JStr str)) products = Inr q \<and>
       generate env q = Inl e
     \<longrightarrow> chat nts env s req_body = (Reply 500 (ErrorJson (message e)), s')) \<and>
   (\<forall>e. destructure_prompt req_body = Inl e
     \<longrightarrow> chat nts env s req_body = (Reply 500 (ErrorJson (message e)), s)) \<and>
   (\<forall>answer. length (split_on CHR '' '' answer) =
       Suc (length (filter (\<lambda>x. x = CHR '' '') answer))) \<and>
   (\<forall>n. \<bar>times_133 n - of_nat n * (133 / 100)\<bar> \<le> of_nat n / 2 ^ 51)"
proof -
  have accepted: "destructure_prompt req_body = Inr (Some (JStr str)) \<and>
      \<not> prompt_rejected (Some (JStr str))"
    if "req_body = Some v" "get_prop v ''prompt'' = Inr (Some (JStr str))" "trim str \<noteq> []"
    for v str
  proof -
    from that(2) have "v \<noteq> JNull" by auto
    then show ?thesis using that by (simp add: destructure_value prompt_rejected_iff)
  qed
  have 1: "\<forall>v p. req_body = Some v \<and> get_prop v ''prompt'' = Inr p \<and>
       (p = None \<or> typeof p \<noteq> ''string'' \<or> (\<exists>str. p = Some (JStr str) \<and> trim str = []))
     \<longrightarrow> fst (chat nts env s req_body) =
           Reply 400 (ErrorJson ''Prompt is required and must be a non-empty string.'')"
  proof (intro allI impI)
    fix v p
    assume h: "req_body = Some v \<and> get_prop v ''prompt'' = Inr p \<and>
       (p = None \<or> typeof p \<noteq> ''string'' \<or> (\<exists>str. p = Some (JStr str) \<and> trim str = []))"
    then have "v \<noteq> JNull" by auto
    then have "destructure_prompt req_body = Inr p" using h by (simp add: destructure_value)
    moreover have "prompt_rejected p" using h by (simp add: prompt_rejected_iff)
    ultimately show "fst (chat nts env s req_body) =
           Reply 400 (ErrorJson ''Prompt is required and must be a non-empty string.'')"
      by (simp add: chat_rejected)
  qed
  have 2: "\<forall>v str products s' q answer.
       req_body = Some v \<and> get_prop v ''prompt'' = Inr (Some (JStr str)) \<and> trim str \<noteq> [] \<and>
       getProducts nts (net env) s = (Inr products, s') \<and>
       constrainedPrompt nts (Some (JStr str)) products = Inr q \<and>
       generate env q = Inr answer
     \<longrightarrow> chat nts env s req_body =
           (Reply 200
              (ChatJson answer
                 (times_133 (length (split_on CHR '' '' answer)))
                 (length products)),
            s')"
    using accepted by (auto simp: chat_def chat_try_def)
  have 3: "\<forall>v str e s'.
       req_body = Some v \<and> get_prop v ''prompt'' = Inr (Some (JStr str)) \<and> trim str \<noteq> [] \<and>
       getProducts nts (net env) s = (Inl e, s')
     \<longrightarrow> chat nts env s req_body = (Reply 500 (ErrorJson (message e)), s')"
    using accepted by (auto simp: chat_def chat_try_def)
  have 4: "\<forall>v str products s' e.
       req_body = Some v \<and> get_prop v ''prompt'' = Inr (Some (JStr str)) \<and> trim str \<noteq> [] \<and>
       getProducts nts (net env) s = (Inr products, s') \<and>
       constrainedPrompt nts (Some (JStr str)) products = Inl e
     \<longrightarrow> chat nts env s req_body = (Reply 500 (ErrorJson (message e)), s')"
    using accepted by (auto simp: chat_def chat_try_def)
  have 5: "\<forall>v str products s' q e.
       req_body = Some v \<and> get_prop v ''prompt'' = Inr (Some (JStr str)) \<and> trim str \<noteq> [] \<and>
       getProducts nts (net env) s = (Inr products, s') \<and>
       constrainedPrompt nts (Some (JStr str)) products = Inr q \<and>
       generate env q = Inl e
     \<longrightarrow> chat nts env s req_body = (Reply 500 (ErrorJson (message e)), s')"
    using accepted by (auto simp: chat_def chat_try_def)
  have 6: "\<forall>e. destructure_prompt req_body = Inl e
     \<longrightarrow> chat nts env s req_body = (Reply 500 (ErrorJson (message e)), s)"
    by (simp add: chat_def chat_try_def)
  have 7: "\<forall>answer. length (split_on CHR '' '' answer) =
       Suc (length (filter (\<lambda>x. x = CHR '' '') answer))"
    by (simp add: split_on_length)
  have 8: "\<forall>n. \<bar>times_133 n - of_nat n * (133 / 100)\<bar> \<le> of_nat n / 2 ^ 51"
    by (rule allI) (rule times_133_close)
  from 1 2 3 4 5 6 7 8 show ?thesis by (intro conjI)
qed

text \<open>
  The scenario of the specification: the query "Show me cheap shoes" on a cached
  catalog of one product gives the generated text and one product used; the fifteen
  words of the text give the estimate 19.950000000000003, the double
  \<open>1403856446344397 / 2^46\<close>, where the exact product is 19.95. The other conjuncts: no prompt, a number as
  prompt, a blank prompt; the network down after the cache has expired; the engine
  failing.
\<close>

theorem chat_replies_witness:
  "fst (chat integer_text (shop (\<lambda>p. Inr ''Try the Sneaker at 20 it is the only shoe we have in stock now'') 2000) cached_state
         (Some (JObj []))) =
     Reply 400 (ErrorJson ''Prompt is required and must be a non-empty string.'') \<and>
   fst (chat integer_text (shop (\<lambda>p. Inr ''Try the Sneaker at 20 it is the only shoe we have in stock now'') 2000) cached_state
         (Some (JObj [(''prompt'', JNum 7)]))) =
     Reply 400 (ErrorJson ''Prompt is required and must be a non-empty string.'') \<and>
   fst (chat integer_text (shop (\<lambda>p. Inr ''Try the Sneaker at 20 it is the only shoe we have in stock now'') 2000) cached_state
         (Some (JObj [(''prompt'', JStr ''   '')]))) =
     Reply 400 (ErrorJson ''Prompt is required and must be a non-empty string.'') \<and>
   chat integer_text (shop (\<lambda>p. Inr ''Try the Sneaker at 20 it is the only shoe we have in stock now'') 2000) cached_state shoes_request =
     (Reply 200
        (ChatJson ''Try the Sneaker at 20 it is the only shoe we have in stock now''
           (1403856446344397 / 70368744177664) 1),
      cached_state) \<and>
   chat integer_text (shop (\<lambda>p. Inr ''Try the Sneaker at 20 it is the only shoe we have in stock now'') 700000) cached_state shoes_request =
     (Reply 500 (ErrorJson ''offline''), cached_state\<lparr>fetch_calls := 2\<rparr>) \<and>
   chat integer_text (shop (\<lambda>p. Inl (Error ''quota exceeded'')) 2000) cached_state shoes_request =
     (Reply 500 (ErrorJson ''quota exceeded''), cached_state)"
proof -
  let ?g = "\<lambda>p :: string. Inr ''Try the Sneaker at 20 it is the only shoe we have in stock now'' :: error + string"
  let ?bad = "\<lambda>p :: string. Inl (Error ''quota exceeded'') :: error + string"
  let ?msg = "''Prompt is required and must be a non-empty string.''"
  have 1: "fst (chat integer_text (shop ?g 2000) cached_state (Some (JObj []))) =
      Reply 400 (ErrorJson ?msg)"
    using chat_replies [of "Some (JObj [])" integer_text "shop ?g 2000" cached_state,
        THEN conjunct1, rule_format, of "JObj []" None]
    by simp
  have 2: "fst (chat integer_text (shop ?g 2000) cached_state
         (Some (JObj [(''prompt'', JNum 7)]))) = Reply 400 (ErrorJson ?msg)"
    using chat_replies [of "Some (JObj [(''prompt'', JNum 7)])" integer_text "shop ?g 2000" cached_state,
        THEN conjunct1, rule_format, of "JObj [(''prompt'', JNum 7)]" "Some (JNum 7)"]
    by simp
  have 3: "fst (chat integer_text (shop ?g 2000) cached_state
         (Some (JObj [(''prompt'', JStr ''   '')]))) = Reply 400 (ErrorJson ?msg)"
    using chat_replies [of "Some (JObj [(''prompt'', JStr ''   '')])" integer_text "shop ?g 2000"
        cached_state, THEN conjunct1, rule_format,
        of "JObj [(''prompt'', JStr ''   '')]" "Some (JStr ''   '')"]
    by (simp add: trim_def is_space_def)
  have tr: "trim ''Show me cheap shoes'' \<noteq> []"
    by (simp add: trim_def is_space_def)
  obtain q where q: "constrainedPrompt integer_text (Some (JStr ''Show me cheap shoes'')) [sneaker] = Inr q"
    using shoes_prompt by blast
  have words: "length (split_on CHR '' '' ''Try the Sneaker at 20 it is the only shoe we have in stock now'') = 15"
    by simp
  have est: "times_133 (length (split_on CHR '' '' ''Try the Sneaker at 20 it is the only shoe we have in stock now'')) =
      1403856446344397 / 70368744177664"
    by (simp only: words times_133_15)
  have 4: "chat integer_text (shop ?g 2000) cached_state shoes_request =
     (Reply 200
        (ChatJson ''Try the Sneaker at 20 it is the only shoe we have in stock now''
           (1403856446344397 / 70368744177664) 1),
      cached_state)"
    using chat_replies [of shoes_request integer_text "shop ?g 2000" cached_state,
        THEN conjunct2, THEN conjunct1, rule_format,
        of "JObj [(''prompt'', JStr ''Show me cheap shoes'')]" "''Show me cheap shoes''"
           "[sneaker]" cached_state q
           "''Try the Sneaker at 20 it is the only shoe we have in stock now''",
        unfolded est]
      tr q getProducts_cached
    by (simp add: shoes_request_def shop_def)
  have 5: "chat integer_text (shop ?g 700000) cached_state shoes_request =
     (Reply 500 (ErrorJson ''offline''), cached_state\<lparr>fetch_calls := 2\<rparr>)"
    using chat_replies [of shoes_request integer_text "shop ?g 700000" cached_state,
        THEN conjunct2, THEN conjunct2, THEN conjunct1, rule_format,
        of "JObj [(''prompt'', JStr ''Show me cheap shoes'')]" "''Show me cheap shoes''"
           "FetchError ''offline''" "cached_state\<lparr>fetch_calls := 2\<rparr>"]
      tr getProducts_stale
    by (simp add: shoes_request_def shop_def)
  have 6: "chat integer_text (shop ?bad 2000) cached_state shoes_request =
     (Reply 500 (ErrorJson ''quota exceeded''), cached_state)"
    using chat_replies [of shoes_request integer_text "shop ?bad 2000" cached_state,
        THEN conjunct2, THEN conjunct2, THEN conjunct2, THEN conjunct2, THEN conjunct1,
        rule_format,
        of "JObj [(''prompt'', JStr ''Show me cheap shoes'')]" "''Show me cheap shoes''"
           "[sneaker]" cached_state q "Error ''quota exceeded''"]
      tr q getProducts_cached
    by (simp add: shoes_request_def shop_def)
  from 1 2 3 4 5 6 show ?thesis by (intro conjI)
qed

section \<open>C9: the time to live of the cache\<close>

text \<open>
  C9: every reachable state, the initial one and every one left by a call of
  \<open>getProducts\<close>, of \<open>fetchProducts\<close> or of the chat handler, has a cache whose
  \<^verbatim>\<open>ttl\<close> is ten minutes, 600000 ms. A call of \<open>getProducts\<close> leaves the cache as it
  was or replaces it as a whole by the fetched items, the time of the store and the
  same \<^verbatim>\<open>ttl\<close>.
\<close>

theorem cache_ttl_constant:
  "(reachable s \<longrightarrow> ttl (productCache s) = 10 * 60 * 1000) \<and>
   (\<forall>env. productCache (snd (getProducts nts env s)) = productCache s \<or>
      (\<exists>items. fst (getProducts nts env s) = Inr items \<and>
         productCache (snd (getProducts nts env s)) =
           \<lparr>data = items, lastUpdated = Some (now_store env), ttl = 10 * 60 * 1000\<rparr>))"
  using reachable_ttl [of s] getProducts_cache_cases [of nts _ s] by simp

text \<open>The state after the first successful fetch.\<close>

theorem cache_ttl_constant_witness:
  "reachable (snd (getProducts integer_text
       (answering 5000 \<lparr>ok = True, status = 200, text_result = Inr [],
          json_result = Inr (JObj [(''products'', JArr [sneaker])])\<rparr>)
       initial_state)) \<and>
   ttl (productCache (snd (getProducts integer_text
       (answering 5000 \<lparr>ok = True, status = 200, text_result = Inr [],
          json_result = Inr (JObj [(''products'', JArr [sneaker])])\<rparr>)
       initial_state))) = 600000 \<and>
   productCache (snd (getProducts integer_text
       (answering 5000 \<lparr>ok = True, status = 200, text_result = Inr [],
          json_result = Inr (JObj [(''products'', JArr [sneaker])])\<rparr>)
       initial_state)) = \<lparr>data = [sneaker], lastUpdated = Some 5000, ttl = 600000\<rparr>"
proof -
  let ?env = "answering 5000 \<lparr>ok = True, status = 200, text_result = Inr [],
          json_result = Inr (JObj [(''products'', JArr [sneaker])])\<rparr>"
  have "time_value_ok (now_store ?env)"
    by (simp add: answering_def time_value_ok_def)
  with reachable.start have r: "reachable (snd (getProducts integer_text ?env initial_state))"
    by (rule reachable.get)
  with cache_ttl_constant [of "snd (getProducts integer_text ?env initial_state)"]
  have t: "ttl (productCache (snd (getProducts integer_text ?env initial_state))) = 600000"
    by simp
  have "productCache (snd (getProducts integer_text ?env initial_state)) =
      \<lparr>data = [sneaker], lastUpdated = Some 5000, ttl = 600000\<rparr>"
    by (simp add: getProducts_def answering_def initial_state_def initial_cache_def
        log_current_cache_def cache_valid_def select_products_def or_else_def log_parsed_array)
  with r t show ?thesis by (intro conjI)
qed

section \<open>C10: a rejected prompt does not touch the cache\<close>

text \<open>
  C10: a chat request whose \<^verbatim>\<open>prompt\<close> is missing, is not a string, or is blank
  gets the status 400 and leaves the state as it was: the cache is unchanged and no
  call of \<^verbatim>\<open>fetch\<close> was made.
\<close>

theorem rejected_prompt_skips_cache:
  assumes "req_body = Some v" and "get_prop v ''prompt'' = Inr p"
    and "p = None \<or> typeof p \<noteq> ''string'' \<or> (\<exists>str. p = Some (JStr str) \<and> trim str = [])"
  shows "chat nts env s req_body =
    (Reply 400 (ErrorJson ''Prompt is required and must be a non-empty string.''), s)"
proof -
  from assms(2) have "v \<noteq> JNull" by auto
  then have "destructure_prompt req_body = Inr p"
    using assms(1,2) by (simp add: destructure_value)
  moreover have "prompt_rejected p"
    using assms(3) by (simp add: prompt_rejected_iff)
  ultimately show ?thesis by (rule chat_rejected)
qed

text \<open>
  A blank prompt on an expired cache: a valid prompt would have fetched, this one does
  not.
\<close>

theorem rejected_prompt_skips_cache_witness:
  "chat integer_text (shop (\<lambda>p. Inr ''Try the Sneaker at 20'') 700000) cached_state
     (Some (JObj [(''prompt'', JStr ''   '')])) =
   (Reply 400 (ErrorJson ''Prompt is required and must be a non-empty string.''), cached_state)"
  using rejected_prompt_skips_cache [of "Some (JObj [(''prompt'', JStr ''   '')])" "JObj [(''prompt'', JStr ''   '')]"
      "Some (JStr ''   '')" integer_text "shop (\<lambda>p. Inr ''Try the Sneaker at 20'') 700000"
      cached_state]
  by (simp add: trim_def is_space_def)

end
